theory Spec2Isabelle
  imports Complex_Main "HOL-Library.AList" "HOL-Library.Sublist"
begin

section \<open>The frame session of xk6-browser (common/frame\_session.go)\<close>

text \<open>
  A shallow embedding of \<^verbatim>\<open>FrameSession\<close>: the per-target object that mirrors a
  browser target's frames and execution contexts from the stream of CDP events.

  Conventions of the embedding.
  \<^item> Go pointers to \<^verbatim>\<open>Frame\<close> objects are addresses into an explicit store
    (\<open>heap\<close>); the frame manager's registry maps frame ids to addresses. An execution
    context keeps the address of its owning frame, as the Go object keeps the pointer.
  \<^item> Go maps are association lists with unique keys (\<open>map_of\<close>, \<open>AList.update\<close>,
    \<open>AList.delete\<close>); a \<^verbatim>\<open>range\<close> loop visits the entries in list order, and the
    theorems about such loops hold for every list, hence for every order.
  \<^item> A Go \<^verbatim>\<open>error\<close> is its text; \<^verbatim>\<open>fmt.Errorf("...: %w", err)\<close> puts the
    message in front of the text of \<open>err\<close>.
  \<^item> Every function returns \<open>failure + result\<close>: \<open>Error\<close> is a returned Go error,
    \<open>Fatal\<close> is \<^verbatim>\<open>k6Throw\<close> (the script run ends), \<open>NilDereference\<close> is the
    runtime panic of reading through a nil pointer, \<open>Panic\<close> any other panic.
  \<^item> The browser and the collaborators whose code is not part of this file
    (the replies to CDP commands, the network manager, the worker constructor, the
    frame manager's attach and navigate callbacks, the remote-object parser) are the
    fields of an environment record \<open>Env\<close>.
  \<^item> The \<^verbatim>\<open>Debugf\<close> trace lines of the handlers write nothing but diagnostics and
    are left out; the spawned event loop (\<^verbatim>\<open>go func()\<close>) is not part of the model,
    each handler is a function on the state.
\<close>

subsection \<open>Identifiers, time and failures\<close>

type_synonym FrameID = string
type_synonym TargetID = string
type_synonym SessionID = string
type_synonym ExecutionContextID = int
type_synonym WindowID = int
type_synonym frame_ptr = nat

text \<open>
  \<^verbatim>\<open>cdp.MonotonicTime\<close> and \<^verbatim>\<open>time.Time\<close> are instants, counted here in nanoseconds;
  \<^verbatim>\<open>time.Duration\<close> is a signed 64-bit count of nanoseconds.
\<close>

type_synonym MonotonicTime = int
type_synonym Duration = int

datatype failure = Error string | Fatal string | NilDereference string | Panic string

definition then_do :: "failure + 'a \<Rightarrow> ('a \<Rightarrow> failure + 'b) \<Rightarrow> failure + 'b" where
  "then_do r f = (case r of Inl e \<Rightarrow> Inl e | Inr x \<Rightarrow> f x)"

text \<open>\<^verbatim>\<open>strings.Contains(s, substr)\<close>: \<open>substr\<close> occurs in \<open>s\<close> as a contiguous run.\<close>

definition strings_Contains :: "string \<Rightarrow> string \<Rightarrow> bool" where
  "strings_Contains s substr = sublist substr s"

text \<open>\<^verbatim>\<open>fmt.Errorf(msg + ": %w", err)\<close>, as a text.\<close>

definition Errorf :: "string \<Rightarrow> string \<Rightarrow> string" where
  "Errorf msg err = msg @ '': '' @ err"

text \<open>
  Modelled from the spec: \<^verbatim>\<open>k6Throw\<close> is not in this file. The spec calls it the
  fatal escalation primitive that terminates the script run with a wrapped error.
\<close>

definition k6Throw :: "string \<Rightarrow> string \<Rightarrow> failure + 'a" where
  "k6Throw msg err = Inl (Fatal (Errorf msg err))"

text \<open>
  \<^verbatim>\<open>Time.Sub\<close> of the Go library: the difference, saturated at the bounds of
  \<^verbatim>\<open>time.Duration\<close>.
\<close>

definition time_Sub :: "MonotonicTime \<Rightarrow> MonotonicTime \<Rightarrow> Duration" where
  "time_Sub t u = max (- (2 ^ 63)) (min (2 ^ 63 - 1) (t - u))"

text \<open>
  \<^verbatim>\<open>k6stats.D\<close>: a duration as a number of milliseconds (the rounding of
  \<^verbatim>\<open>float64\<close> is not modelled).
\<close>

definition k6stats_D :: "Duration \<Rightarrow> real" where
  "k6stats_D d = real_of_int d / 1000000"

subsection \<open>Frames and execution contexts\<close>

definition utilityWorldName :: string where
  "utilityWorldName = ''__k6_browser_utility_world__''"

text \<open>
  Modelled from the spec: the world labels \<^verbatim>\<open>mainExecutionContext\<close> and
  \<^verbatim>\<open>utilityExecutionContext\<close> are constants declared outside this file. The spec
  gives the labels main, utility and none; the handler writes none as the empty string.
\<close>

definition mainExecutionContext :: string where
  "mainExecutionContext = ''main''"

definition utilityExecutionContext :: string where
  "utilityExecutionContext = ''utility''"

datatype LifecycleEvent =
  LifecycleEventDOMContentLoad | LifecycleEventLoad | LifecycleEventNetworkIdle

text \<open>
  Modelled from the spec: \<^verbatim>\<open>ExecutionContext\<close> and its constructor are not in this
  file. The spec gives a context its numeric id and at most one owning frame.
\<close>

record ExecutionContext =
  ec_session :: SessionID
  ec_frame :: "frame_ptr option"
  ec_id :: ExecutionContextID


text \<open>
  Modelled from the spec: \<^verbatim>\<open>Frame\<close> is not in this file. Of the spec's data model
  the record keeps the identity, the URL, the link to the parent, the detached flag,
  the frame's own lifecycle events and the two world slots (at most one main and one
  utility context at a time).
\<close>

record Frame =
  frame_ID :: FrameID
  frame_URL :: string
  parentFrame :: "frame_ptr option"
  detached :: bool
  lifecycleEvents :: "LifecycleEvent list"
  main_slot :: "ExecutionContext option"
  utility_slot :: "ExecutionContext option"



definition holds_id :: "ExecutionContextID \<Rightarrow> ExecutionContext option \<Rightarrow> bool" where
  "holds_id i slot = (case slot of None \<Rightarrow> False | Some c \<Rightarrow> ec_id c = i)"

definition nullContext :: "ExecutionContextID \<Rightarrow> Frame \<Rightarrow> Frame" where
  "nullContext i f =
     f\<lparr>main_slot := (if holds_id i (main_slot f) then None else main_slot f),
       utility_slot := (if holds_id i (utility_slot f) then None else utility_slot f)\<rparr>"


subsection \<open>The frame manager, as far as the handlers use it\<close>

record FrameManager =
  heap :: "frame_ptr \<Rightarrow> Frame"
  frames :: "(FrameID \<times> frame_ptr) list"

text \<open>
  Modelled from the spec: the methods of \<^verbatim>\<open>FrameManager\<close> are not in this file.
  The manager is the registry of frames by id; \<open>getFrameByID\<close> looks a frame up (nil
  when the id is not registered), \<open>Frames\<close> lists the registered frames.
\<close>

definition getFrameByID :: "FrameManager \<Rightarrow> FrameID \<Rightarrow> frame_ptr option" where
  "getFrameByID m fid = map_of (frames m) fid"

definition Frames :: "FrameManager \<Rightarrow> frame_ptr list" where
  "Frames m = map snd (frames m)"

text \<open>
  Modelled from the spec: \<^verbatim>\<open>frameLifecycleEvent\<close> marks the lifecycle event on the
  frame with that id; an unknown id changes nothing. (The aggregation over the subtree
  that follows in the spec is a matter of the frame, not of this file.)
\<close>

definition frameLifecycleEvent :: "FrameID \<Rightarrow> LifecycleEvent \<Rightarrow> FrameManager \<Rightarrow> FrameManager" where
  "frameLifecycleEvent fid ev m =
     (case getFrameByID m fid of
        None \<Rightarrow> m
      | Some p \<Rightarrow>
          m\<lparr>heap := (heap m)(p := (heap m p)\<lparr>lifecycleEvents :=
                List.insert ev (lifecycleEvents (heap m p))\<rparr>)\<rparr>)"

text \<open>
  Modelled from the spec: \<^verbatim>\<open>removeChildFramesRecursively\<close> removes all descendants
  of a frame. A frame is a descendant of \<open>p\<close> when following the parent links from it
  reaches \<open>p\<close>; the walk is bounded by the number of registered frames, which is
  enough in a tree. A removed frame leaves the registry, is marked detached and loses
  its parent link.
\<close>

fun reaches :: "(frame_ptr \<Rightarrow> Frame) \<Rightarrow> nat \<Rightarrow> frame_ptr \<Rightarrow> frame_ptr \<Rightarrow> bool" where
  "reaches h 0 p x = False"
| "reaches h (Suc n) p x =
     (case parentFrame (h x) of
        None \<Rightarrow> False
      | Some q \<Rightarrow> q = p \<or> reaches h n p q)"

definition descendant :: "FrameManager \<Rightarrow> frame_ptr \<Rightarrow> frame_ptr \<Rightarrow> bool" where
  "descendant m p x = reaches (heap m) (length (frames m)) p x"

definition detach :: "Frame \<Rightarrow> Frame" where
  "detach f = f\<lparr>parentFrame := None, detached := True\<rparr>"

definition removeChildFramesRecursively :: "frame_ptr \<Rightarrow> FrameManager \<Rightarrow> FrameManager" where
  "removeChildFramesRecursively p m =
     \<lparr>heap = (\<lambda>x. if x \<in> snd ` set (frames m) \<and> descendant m p x
                   then detach (heap m x) else heap m x),
      frames = filter (\<lambda>kv. \<not> descendant m p (snd kv)) (frames m)\<rparr>"


subsection \<open>CDP commands and their replies\<close>

record cdp_Frame =
  ID :: FrameID
  ParentID :: FrameID
  LoaderID :: string
  Name :: string
  URL :: string
  URLFragment :: string

datatype FrameTree = FrameTree (Frame: cdp_Frame) (ChildFrames: "FrameTree list")

record ScreenOrientation =
  Angle :: int
  Type :: string

datatype Command =
    BrowserGetWindowForTarget TargetID
  | BrowserSetWindowBounds WindowID int int
  | PageEnable
  | PageGetFrameTree
  | PageSetLifecycleEventsEnabled bool
  | PageCreateIsolatedWorld FrameID string bool
  | PageAddScriptToEvaluateOnNewDocument string string
  | PageSetBypassCSP bool
  | DOMEnable
  | LogEnable
  | RuntimeEnable
  | RuntimeRunIfWaitingForDebugger
  | TargetSetAutoAttach bool bool bool
  | TargetDetachFromTarget SessionID
  | SecuritySetIgnoreCertificateErrors bool
  | EmulationSetFocusEmulationEnabled bool
  | EmulationSetTouchEmulationEnabled bool
  | EmulationSetScriptExecutionDisabled bool
  | EmulationSetUserAgentOverride string string
  | EmulationSetLocaleOverride string
  | EmulationSetTimezoneOverride string
  | EmulationSetGeolocationOverride real real real
  | EmulationSetEmulatedMedia string "(string \<times> string) list"
  | EmulationSetDeviceMetricsOverride int int real bool ScreenOrientation int int

text \<open>What \<^verbatim>\<open>%T\<close> prints for the parameter object of a command.\<close>

fun type_name :: "Command \<Rightarrow> string" where
  "type_name (BrowserGetWindowForTarget _) = ''*browser.GetWindowForTargetParams''"
| "type_name (BrowserSetWindowBounds _ _ _) = ''*browser.SetWindowBoundsParams''"
| "type_name PageEnable = ''*page.EnableParams''"
| "type_name PageGetFrameTree = ''*page.GetFrameTreeParams''"
| "type_name (PageSetLifecycleEventsEnabled _) = ''*page.SetLifecycleEventsEnabledParams''"
| "type_name (PageCreateIsolatedWorld _ _ _) = ''*page.CreateIsolatedWorldParams''"
| "type_name (PageAddScriptToEvaluateOnNewDocument _ _) =
     ''*page.AddScriptToEvaluateOnNewDocumentParams''"
| "type_name (PageSetBypassCSP _) = ''*page.SetBypassCSPParams''"
| "type_name DOMEnable = ''*dom.EnableParams''"
| "type_name LogEnable = ''*log.EnableParams''"
| "type_name RuntimeEnable = ''*runtime.EnableParams''"
| "type_name RuntimeRunIfWaitingForDebugger = ''*runtime.RunIfWaitingForDebuggerParams''"
| "type_name (TargetSetAutoAttach _ _ _) = ''*target.SetAutoAttachParams''"
| "type_name (TargetDetachFromTarget _) = ''*target.DetachFromTargetParams''"
| "type_name (SecuritySetIgnoreCertificateErrors _) =
     ''*security.SetIgnoreCertificateErrorsParams''"
| "type_name (EmulationSetFocusEmulationEnabled _) =
     ''*emulation.SetFocusEmulationEnabledParams''"
| "type_name (EmulationSetTouchEmulationEnabled _) =
     ''*emulation.SetTouchEmulationEnabledParams''"
| "type_name (EmulationSetScriptExecutionDisabled _) =
     ''*emulation.SetScriptExecutionDisabledParams''"
| "type_name (EmulationSetUserAgentOverride _ _) = ''*emulation.SetUserAgentOverrideParams''"
| "type_name (EmulationSetLocaleOverride _) = ''*emulation.SetLocaleOverrideParams''"
| "type_name (EmulationSetTimezoneOverride _) = ''*emulation.SetTimezoneOverrideParams''"
| "type_name (EmulationSetGeolocationOverride _ _ _) =
     ''*emulation.SetGeolocationOverrideParams''"
| "type_name (EmulationSetEmulatedMedia _ _) = ''*emulation.SetEmulatedMediaParams''"
| "type_name (EmulationSetDeviceMetricsOverride _ _ _ _ _ _ _) =
     ''*emulation.SetDeviceMetricsOverrideParams''"

text \<open>
  A command is either executed (the caller waits for the reply) or sent without
  expectation on reply. The log of what was sent, in order, is part of the state.
\<close>

datatype Sent =
    Execute SessionID Command
  | ExecuteWithoutExpectationOnReply SessionID Command

datatype Reply =
    ReplyError string
  | ReplyOK
  | ReplyWindowID WindowID
  | ReplyFrameTree "FrameTree option"

subsection \<open>Page, browser context options and the load-testing state\<close>

record Geolocation =
  Latitude :: real
  Longitude :: real
  Accurracy :: real

record Credentials =
  Username :: string
  Password :: string

record BrowserContextOptions =
  BypassCSP :: bool
  DeviceScaleFactor :: real
  ExtraHTTPHeaders :: "(string \<times> string) list"
  Geolocation :: "Geolocation option"
  HasTouch :: bool
  HttpCredentials :: "Credentials option"
  IgnoreHTTPSErrors :: bool
  IsMobile :: bool
  JavaScriptEnabled :: bool
  Locale :: string
  Offline :: bool
  TimezoneID :: string
  UserAgent :: string

record Size =
  Width :: int
  Height :: int

record EmulatedSize =
  Viewport :: Size
  Screen :: Size

datatype ColorScheme = ColorSchemeLight | ColorSchemeDark | ColorSchemeNoPreference
datatype ReducedMotion = ReducedMotionReduce | ReducedMotionNoPreference

datatype NetworkManager =
  NetworkManager (nm_session: SessionID) (nm_parent: "NetworkManager option")

datatype NetworkManagerCall =
    SetExtraHTTPHeaders NetworkManager "(string \<times> string) list"
  | setRequestInterception NetworkManager bool
  | SetOfflineMode NetworkManager bool
  | Authenticate NetworkManager "Credentials option"

record Worker =
  worker_session :: SessionID
  worker_targetID :: TargetID
  worker_url :: string

text \<open>
  The parent of a frame session is a pointer in Go; the model keeps the two things
  this file reads through it.
\<close>

record ParentSession =
  parent_targetID :: TargetID
  parent_networkManager :: "NetworkManager option"

record FrameSession =
  session :: SessionID
  parent :: "ParentSession option"
  networkManager :: "NetworkManager option"
  targetID :: TargetID
  windowID :: WindowID
  initTime :: MonotonicTime
  contextIDToContext :: "(ExecutionContextID \<times> ExecutionContext) list"
  isolatedWorlds :: "(string \<times> bool) list"
  childSessions :: "(FrameID \<times> SessionID) list"

record Page =
  page_targetID :: TargetID
  opts :: BrowserContextOptions
  connected :: bool
  emulatedSize :: "EmulatedSize option"
  colorScheme :: ColorScheme
  reducedMotion :: ReducedMotion
  mediaType :: string
  extraHTTPHeaders :: "(string \<times> string) list"
  hasRoutes :: bool
  frameSessions :: "(FrameID \<times> FrameSession) list"
  workers :: "(SessionID \<times> Worker) list"

datatype Metric =
    BrowserDOMContentLoaded
  | BrowserLoaded
  | BrowserFirstPaint
  | BrowserFirstContentfulPaint
  | BrowserFirstMeaningfulPaint

record Sample =
  sample_Metric :: Metric
  sample_Tags :: "(string \<times> string) list"
  sample_Value :: real
  sample_Time :: int

text \<open>
  \<^verbatim>\<open>k6lib.State\<close> as the handlers read it: the active scope tags, whether the
  \<^verbatim>\<open>url\<close> system tag is enabled, the path of the current group.
\<close>

record State =
  Tags :: "(string \<times> string) list"
  SystemTagURL :: bool
  Group_Path :: string

datatype Level = InfoLevel | WarnLevel | ErrorLevel | DebugLevel

datatype Logger = Serializer | LoggerLog

datatype FieldValue =
    StringValue string
  | IntValue int
  | Objects "string list"
  | StackTraceValue "string option"

record LogRecord =
  log_logger :: Logger
  log_time :: MonotonicTime
  log_fields :: "(string \<times> FieldValue) list"
  log_level :: Level
  log_message :: string

subsection \<open>The state and the environment\<close>

text \<open>
  Everything a frame session shares with the rest of the process: the frame manager,
  the page, the cancellation context \<open>ctx\<close> (done or not), the load-testing state
  with its channel of samples, the wall clock, and what has left the process so far
  (commands sent, subscriptions, calls on the network manager, log records).
\<close>

record World =
  manager :: FrameManager
  page :: Page
  ctx_done :: bool
  state :: State
  samples :: "Sample list list"
  wall_clock :: int
  sent :: "Sent list"
  subscriptions :: "(SessionID \<times> string list) list"
  nm_calls :: "NetworkManagerCall list"
  log_out :: "LogRecord list"

text \<open>
  The environment: the browser's replies to executed commands (they may depend on
  the whole state, so on everything sent before), and the collaborators of this file
  whose code and contract the spec leaves open.
\<close>

record Env =
  cdp_reply :: "World \<Rightarrow> SessionID \<Rightarrow> Command \<Rightarrow> Reply"
  NewNetworkManager :: "SessionID \<Rightarrow> NetworkManager option \<Rightarrow> string + NetworkManager"
  NewWorker :: "SessionID \<Rightarrow> TargetID \<Rightarrow> string \<Rightarrow> string + Worker"
  frameAttached :: "FrameID \<Rightarrow> FrameID \<Rightarrow> FrameManager \<Rightarrow> FrameManager"
  frameNavigated ::
    "FrameID \<Rightarrow> FrameID \<Rightarrow> string \<Rightarrow> string \<Rightarrow> string \<Rightarrow> bool \<Rightarrow> FrameManager \<Rightarrow> string + FrameManager"
  nm_setRequestInterception :: "World \<Rightarrow> NetworkManager option \<Rightarrow> bool \<Rightarrow> string option"
  parseRemoteObject :: "string \<Rightarrow> string \<times> string option"
  parseErrLevel :: "string \<Rightarrow> Level"
  evaluationScriptURL :: string

subsection \<open>Executing commands\<close>

text \<open>
  \<^verbatim>\<open>action.Do(cdp.WithExecutor(fs.ctx, fs.session))\<close>: the command goes out on the
  session and the caller gets the error of the reply, if any. The functions that
  construct a frame session return their result together with the state they leave
  behind, since the caller goes on after an error.
\<close>

definition execute :: "Env \<Rightarrow> SessionID \<Rightarrow> Command \<Rightarrow> World \<Rightarrow> Reply \<times> World" where
  "execute env sid c w = (cdp_reply env w sid c, w\<lparr>sent := sent w @ [Execute sid c]\<rparr>)"

definition Do :: "Env \<Rightarrow> SessionID \<Rightarrow> Command \<Rightarrow> World \<Rightarrow> string option \<times> World" where
  "Do env sid c w =
     (case execute env sid c w of
        (ReplyError err, w') \<Rightarrow> (Some err, w')
      | (_, w') \<Rightarrow> (None, w'))"

definition send_without_reply :: "SessionID \<Rightarrow> Command \<Rightarrow> World \<Rightarrow> World" where
  "send_without_reply sid c w =
     w\<lparr>sent := sent w @ [ExecuteWithoutExpectationOnReply sid c]\<rparr>"

type_synonym 'a action = "World \<Rightarrow> (failure + 'a) \<times> World"

text \<open>
  The loop \<^verbatim>\<open>for _, action := range actions\<close> of \<open>initDomains\<close> and \<open>initOptions\<close>:
  the first error ends it, wrapped with the type of the action.
\<close>

fun do_actions :: "Env \<Rightarrow> SessionID \<Rightarrow> Command list \<Rightarrow> unit action" where
  "do_actions env sid [] w = (Inr (), w)"
| "do_actions env sid (c # cs) w =
     (case Do env sid c w of
        (Some err, w') \<Rightarrow> (Inl (Error (Errorf (''unable to execute '' @ type_name c) err)), w')
      | (None, w') \<Rightarrow> do_actions env sid cs w')"

subsection \<open>Emulation\<close>

definition isMainFrame :: "FrameSession \<Rightarrow> World \<Rightarrow> bool" where
  "isMainFrame fs w = (targetID fs = page_targetID (page w))"

definition emulateLocale :: "Env \<Rightarrow> FrameSession \<Rightarrow> unit action" where
  "emulateLocale env fs w =
     (case Do env (session fs) (EmulationSetLocaleOverride (Locale (opts (page w)))) w of
        (Some err, w') \<Rightarrow>
          if strings_Contains err ''Another locale override is already in effect''
          then (Inr (), w')
          else (Inl (Error (Errorf ''unable to set locale'' err)), w')
      | (None, w') \<Rightarrow> (Inr (), w'))"

definition emulateTimezone :: "Env \<Rightarrow> FrameSession \<Rightarrow> unit action" where
  "emulateTimezone env fs w =
     (case Do env (session fs) (EmulationSetTimezoneOverride (TimezoneID (opts (page w)))) w of
        (Some err, w') \<Rightarrow>
          if strings_Contains err ''Timezone override is already in effect''
          then (Inr (), w')
          else (Inl (Error (Errorf ''unable to set timezone ID'' err)), w')
      | (None, w') \<Rightarrow> (Inr (), w'))"

definition media_features :: "World \<Rightarrow> (string \<times> string) list" where
  "media_features w =
     [(''prefers-color-scheme'',
       (case colorScheme (page w) of
          ColorSchemeLight \<Rightarrow> ''light''
        | ColorSchemeDark \<Rightarrow> ''dark''
        | ColorSchemeNoPreference \<Rightarrow> [])),
      (''prefers-reduced-motion'',
       (case reducedMotion (page w) of
          ReducedMotionReduce \<Rightarrow> ''reduce''
        | ReducedMotionNoPreference \<Rightarrow> []))]"

definition updateEmulateMedia :: "Env \<Rightarrow> FrameSession \<Rightarrow> bool \<Rightarrow> unit action" where
  "updateEmulateMedia env fs initial w =
     (let action = EmulationSetEmulatedMedia (mediaType (page w)) (media_features w)
      in case Do env (session fs) action w of
           (Some err, w') \<Rightarrow>
             (Inl (Error (Errorf (''unable to execute '' @ type_name action) err)), w')
         | (None, w') \<Rightarrow> (Inr (), w'))"

text \<open>
  The calls on the network manager: the manager itself is a collaborator, the model
  records the call. Calling through the nil manager of a session under construction
  is a nil dereference.
\<close>

definition nm_call :: "FrameSession \<Rightarrow> (NetworkManager \<Rightarrow> NetworkManagerCall) \<Rightarrow> unit action" where
  "nm_call fs c w =
     (case networkManager fs of
        None \<Rightarrow> (Inl (NilDereference ''networkManager''), w)
      | Some nm \<Rightarrow> (Inr (), w\<lparr>nm_calls := nm_calls w @ [c nm]\<rparr>))"

definition mergedHeaders :: "World \<Rightarrow> (string \<times> string) list" where
  "mergedHeaders w =
     foldl (\<lambda>m kv. AList.update (fst kv) (snd kv) m) []
       (ExtraHTTPHeaders (opts (page w)) @ extraHTTPHeaders (page w))"

definition updateExtraHTTPHeaders :: "FrameSession \<Rightarrow> bool \<Rightarrow> unit action" where
  "updateExtraHTTPHeaders fs initial w =
     (if \<not> initial \<or> length (mergedHeaders w) > 0
      then nm_call fs (\<lambda>nm. SetExtraHTTPHeaders nm (mergedHeaders w)) w
      else (Inr (), w))"

definition updateGeolocation :: "Env \<Rightarrow> FrameSession \<Rightarrow> bool \<Rightarrow> unit action" where
  "updateGeolocation env fs initial w =
     (let geolocation = Geolocation (opts (page w))
      in if \<not> initial \<or> geolocation \<noteq> None
         then (case geolocation of
                 None \<Rightarrow> (Inl (NilDereference ''geolocation''), w)
               | Some g \<Rightarrow>
                   (case Do env (session fs)
                           (EmulationSetGeolocationOverride (Latitude g) (Longitude g) (Accurracy g)) w of
                      (Some err, w') \<Rightarrow>
                        (Inl (Error (Errorf ''unable to set geolocation override'' err)), w')
                    | (None, w') \<Rightarrow> (Inr (), w')))
         else (Inr (), w))"

definition updateHttpCredentials :: "FrameSession \<Rightarrow> bool \<Rightarrow> unit action" where
  "updateHttpCredentials fs initial w =
     (let credentials = HttpCredentials (opts (page w))
      in if \<not> initial \<or> credentials \<noteq> None
         then nm_call fs (\<lambda>nm. Authenticate nm credentials) w
         else (Inr (), w))"

definition updateOffline :: "FrameSession \<Rightarrow> bool \<Rightarrow> unit action" where
  "updateOffline fs initial w =
     (let offline = Offline (opts (page w))
      in if \<not> initial \<or> offline
         then nm_call fs (\<lambda>nm. SetOfflineMode nm offline) w
         else (Inr (), w))"

definition updateRequestInterception :: "Env \<Rightarrow> FrameSession \<Rightarrow> bool \<Rightarrow> unit action" where
  "updateRequestInterception env fs initial w =
     (case nm_call fs (\<lambda>nm. setRequestInterception nm (hasRoutes (page w))) w of
        (Inl e, w') \<Rightarrow> (Inl e, w')
      | (Inr _, w') \<Rightarrow>
          (case nm_setRequestInterception env w (networkManager fs) (hasRoutes (page w)) of
             Some err \<Rightarrow> (Inl (Error err), w')
           | None \<Rightarrow> (Inr (), w')))"

definition updateViewport :: "Env \<Rightarrow> FrameSession \<Rightarrow> unit action" where
  "updateViewport env fs w =
     (case emulatedSize (page w) of
        None \<Rightarrow> (Inr (), w)
      | Some es \<Rightarrow>
          (let viewport = Viewport es;
               screen = Screen es;
               orientation =
                 (if Width viewport > Height viewport
                  then \<lparr>Angle = 90, Type = ''landscapePrimary''\<rparr>
                  else \<lparr>Angle = 0, Type = ''portraitPrimary''\<rparr>)
           in case Do env (session fs)
                     (EmulationSetDeviceMetricsOverride (Width viewport) (Height viewport)
                        (DeviceScaleFactor (opts (page w))) (IsMobile (opts (page w)))
                        orientation (Width screen) (Height screen)) w of
                (Some err, w') \<Rightarrow> (Inl (Error (Errorf ''unable to emulate viewport'' err)), w')
              | (None, w') \<Rightarrow>
                  (case Do env (session fs)
                          (BrowserSetWindowBounds (windowID fs) (Width viewport) (Height viewport)) w' of
                     (Some err, w'') \<Rightarrow>
                       (Inl (Error (Errorf ''unable to set window bounds'' err)), w'')
                   | (None, w'') \<Rightarrow> (Inr (), w''))))"

subsection \<open>Constructing a frame session\<close>

definition and_then :: "'a action \<Rightarrow> ('a \<Rightarrow> 'b action) \<Rightarrow> 'b action" where
  "and_then m f w = (case m w of (Inl e, w') \<Rightarrow> (Inl e, w') | (Inr x, w') \<Rightarrow> f x w')"

definition skip :: "unit action" where
  "skip w = (Inr (), w)"

definition initDomains :: "Env \<Rightarrow> FrameSession \<Rightarrow> unit action" where
  "initDomains env fs =
     do_actions env (session fs)
       [DOMEnable, LogEnable, RuntimeEnable, TargetSetAutoAttach True True True]"

text \<open>\<^verbatim>\<open>fs.session.on(fs.ctx, events, fs.eventCh)\<close>: the session forwards these events.\<close>

definition session_on :: "SessionID \<Rightarrow> string list \<Rightarrow> World \<Rightarrow> World" where
  "session_on sid events w = w\<lparr>subscriptions := subscriptions w @ [(sid, events)]\<rparr>"

definition initRendererEvents :: "FrameSession \<Rightarrow> World \<Rightarrow> World" where
  "initRendererEvents fs =
     session_on (session fs)
       [''Log.entryAdded'',
        ''Page.fileChooserOpened'',
        ''Page.frameAttached'',
        ''Page.frameDetached'',
        ''Page.frameNavigated'',
        ''Page.frameRequestedNavigation'',
        ''Page.frameStartedLoading'',
        ''Page.frameStoppedLoading'',
        ''Page.javascriptDialogOpening'',
        ''Page.lifecycleEvent'',
        ''Page.navigatedWithinDocument'',
        ''Runtime.consoleAPICalled'',
        ''Runtime.exceptionThrown'',
        ''Runtime.executionContextCreated'',
        ''Runtime.executionContextDestroyed'',
        ''Runtime.executionContextsCleared'',
        ''Target.attachedToTarget'',
        ''Target.detachedFromTarget'']"

definition initEvents :: "FrameSession \<Rightarrow> World \<Rightarrow> World" where
  "initEvents fs w =
     (let w1 = session_on (session fs) [''Inspector.targetCrashed''] w
      in if \<not> isMainFrame fs w1 then initRendererEvents fs w1 else w1)"

definition onFrameAttached :: "Env \<Rightarrow> FrameID \<Rightarrow> FrameID \<Rightarrow> World \<Rightarrow> World" where
  "onFrameAttached env frameID parentFrameID w =
     w\<lparr>manager := frameAttached env frameID parentFrameID (manager w)\<rparr>"

definition onFrameNavigated :: "Env \<Rightarrow> cdp_Frame \<Rightarrow> bool \<Rightarrow> unit action" where
  "onFrameNavigated env frame initial w =
     (case frameNavigated env (ID frame) (ParentID frame) (LoaderID frame) (Name frame)
             (URL frame @ URLFragment frame) initial (manager w) of
        Inl err \<Rightarrow> (k6Throw ''cannot handle frame navigation'' err, w)
      | Inr m \<Rightarrow> (Inr (), w\<lparr>manager := m\<rparr>))"

fun handleFrameTree :: "Env \<Rightarrow> FrameTree \<Rightarrow> unit action"
  and handleChildFrames :: "Env \<Rightarrow> FrameTree list \<Rightarrow> unit action" where
  "handleFrameTree env (FrameTree frame children) w =
     (let w1 = (if ParentID frame \<noteq> []
                then onFrameAttached env (ID frame) (ParentID frame) w else w)
      in case onFrameNavigated env frame True w1 of
           (Inl e, w2) \<Rightarrow> (Inl e, w2)
         | (Inr _, w2) \<Rightarrow> handleChildFrames env children w2)"
| "handleChildFrames env [] w = (Inr (), w)"
| "handleChildFrames env (child # rest) w =
     (case handleFrameTree env child w of
        (Inl e, w') \<Rightarrow> (Inl e, w')
      | (Inr _, w') \<Rightarrow> handleChildFrames env rest w')"

definition initFrameTree :: "Env \<Rightarrow> FrameSession \<Rightarrow> unit action" where
  "initFrameTree env fs w =
     (case Do env (session fs) PageEnable w of
        (Some err, w1) \<Rightarrow> (Inl (Error (Errorf ''unable to enable page domain'' err)), w1)
      | (None, w1) \<Rightarrow>
          (case execute env (session fs) PageGetFrameTree w1 of
             (ReplyError err, w2) \<Rightarrow>
               (Inl (Error (Errorf ''unable to get page frame tree'' err)), w2)
           | (r, w2) \<Rightarrow>
               (let frameTree = (case r of ReplyFrameTree t \<Rightarrow> t | _ \<Rightarrow> None)
                in if isMainFrame fs w2
                   then (case frameTree of
                           None \<Rightarrow> (Inl (NilDereference ''frameTree''), w2)
                         | Some t \<Rightarrow>
                             (case handleFrameTree env t w2 of
                                (Inl e, w3) \<Rightarrow> (Inl e, w3)
                              | (Inr _, w3) \<Rightarrow> (Inr (), initRendererEvents fs w3)))
                   else (Inr (), w2))))"

fun createIsolatedWorlds :: "SessionID \<Rightarrow> string \<Rightarrow> frame_ptr option list \<Rightarrow> unit action" where
  "createIsolatedWorlds sid name [] w = (Inr (), w)"
| "createIsolatedWorlds sid name (None # rest) w = (Inl (NilDereference ''frame''), w)"
| "createIsolatedWorlds sid name (Some p # rest) w =
     createIsolatedWorlds sid name rest
       (send_without_reply sid
          (PageCreateIsolatedWorld (frame_ID (heap (manager w) p)) name True) w)"

definition initIsolatedWorld :: "Env \<Rightarrow> string \<Rightarrow> FrameSession \<Rightarrow> FrameSession action" where
  "initIsolatedWorld env name fs w =
     (case Do env (session fs) (PageSetLifecycleEventsEnabled True) w of
        (Some err, w1) \<Rightarrow>
          (Inl (Error (Errorf ''unable to enable page lifecycle events'' err)), w1)
      | (None, w1) \<Rightarrow>
          if map_of (isolatedWorlds fs) name \<noteq> None then (Inr fs, w1)
          else
            (let fs' = fs\<lparr>isolatedWorlds := AList.update name True (isolatedWorlds fs)\<rparr>;
                 frames = (if isMainFrame fs' w1 then map Some (Frames (manager w1))
                           else [getFrameByID (manager w1) (targetID fs')])
             in case createIsolatedWorlds (session fs') name frames w1 of
                  (Inl e, w2) \<Rightarrow> (Inl e, w2)
                | (Inr _, w2) \<Rightarrow>
                    (case Do env (session fs')
                            (PageAddScriptToEvaluateOnNewDocument
                               (''//# sourceURL='' @ evaluationScriptURL env) name) w2 of
                       (Some err, w3) \<Rightarrow>
                         (Inl (Error (Errorf
                            ''unable to add script to evaluate for isolated world'' err)), w3)
                     | (None, w3) \<Rightarrow> (Inr fs', w3))))"

definition optActions :: "FrameSession \<Rightarrow> World \<Rightarrow> Command list" where
  "optActions fs w =
     (let bo = opts (page w)
      in (if isMainFrame fs w then [EmulationSetFocusEmulationEnabled True] else [])
         @ (if BypassCSP bo then [PageSetBypassCSP True] else [])
         @ (if IgnoreHTTPSErrors bo then [SecuritySetIgnoreCertificateErrors True] else [])
         @ (if HasTouch bo then [EmulationSetTouchEmulationEnabled True] else [])
         @ (if \<not> JavaScriptEnabled bo then [EmulationSetScriptExecutionDisabled True] else [])
         @ (if UserAgent bo \<noteq> [] \<or> Locale bo \<noteq> []
            then [EmulationSetUserAgentOverride (UserAgent bo) (Locale bo)] else [])
         @ [RuntimeRunIfWaitingForDebugger])"

definition initOptions :: "Env \<Rightarrow> FrameSession \<Rightarrow> unit action" where
  "initOptions env fs w =
     (let bo = opts (page w)
      in and_then (if isMainFrame fs w then updateViewport env fs else skip) (\<lambda>_.
         and_then (if Locale bo \<noteq> [] then emulateLocale env fs else skip) (\<lambda>_.
         and_then (if TimezoneID bo \<noteq> [] then emulateTimezone env fs else skip) (\<lambda>_.
         and_then (updateGeolocation env fs True) (\<lambda>_.
         and_then (updateExtraHTTPHeaders fs True) (\<lambda>_.
         and_then (updateRequestInterception env fs True) (\<lambda>_.
         and_then (updateOffline fs True) (\<lambda>_.
         and_then (updateHttpCredentials fs True) (\<lambda>_.
         and_then (updateEmulateMedia env fs True) (\<lambda>_.
         do_actions env (session fs) (optActions fs w)))))))))) w)"

definition NewFrameSession ::
  "Env \<Rightarrow> SessionID \<Rightarrow> ParentSession option \<Rightarrow> TargetID \<Rightarrow> FrameSession action" where
  "NewFrameSession env sid par tid w =
     (let fs = \<lparr>session = sid, parent = par, networkManager = None, targetID = tid,
                windowID = 0, initTime = 0, contextIDToContext = [], isolatedWorlds = [],
                childSessions = []\<rparr>
      in case NewNetworkManager env sid
                (case par of Some p \<Rightarrow> parent_networkManager p | None \<Rightarrow> None) of
           Inl err \<Rightarrow> (Inl (Error err), w)
         | Inr nm \<Rightarrow>
             (case execute env sid (BrowserGetWindowForTarget tid) w of
                (ReplyError err, w1) \<Rightarrow> (Inl (Error (Errorf ''unable to get window ID'' err)), w1)
              | (r, w1) \<Rightarrow>
                  (let fs1 = fs\<lparr>networkManager := Some nm,
                                 windowID := (case r of ReplyWindowID n \<Rightarrow> n | _ \<Rightarrow> 0)\<rparr>
                   in and_then (initFrameTree env fs1) (\<lambda>_.
                      and_then (initIsolatedWorld env utilityWorldName fs1) (\<lambda>fs2.
                      and_then (initDomains env fs2) (\<lambda>_.
                      and_then (initOptions env fs2) (\<lambda>_ w'. (Inr fs2, w')))))
                        (initEvents fs1 w1))))"

subsection \<open>Execution context events\<close>



definition update_frame :: "frame_ptr \<Rightarrow> Frame \<Rightarrow> World \<Rightarrow> World" where
  "update_frame p f w = w\<lparr>manager := (manager w)\<lparr>heap := (heap (manager w))(p := f)\<rparr>\<rparr>"

definition frame_at :: "World \<Rightarrow> frame_ptr \<Rightarrow> Frame" where
  "frame_at w p = heap (manager w) p"


text \<open>\<^verbatim>\<open>context.Frame().nullContext(id)\<close>, for a context that has a frame.\<close>

definition null_frame_context :: "ExecutionContext \<Rightarrow> ExecutionContextID \<Rightarrow> World \<Rightarrow> World" where
  "null_frame_context context i w =
     (case ec_frame context of
        None \<Rightarrow> w
      | Some p \<Rightarrow> update_frame p (nullContext i (frame_at w p)) w)"

definition onExecutionContextDestroyed ::
  "ExecutionContextID \<Rightarrow> FrameSession \<Rightarrow> World \<Rightarrow> FrameSession \<times> World" where
  "onExecutionContextDestroyed execCtxID fs w =
     (case map_of (contextIDToContext fs) execCtxID of
        None \<Rightarrow> (fs, w)
      | Some context \<Rightarrow>
          (fs\<lparr>contextIDToContext := AList.delete execCtxID (contextIDToContext fs)\<rparr>,
           null_frame_context context execCtxID w))"


subsection \<open>Page lifecycle events\<close>

record EventLifecycleEvent =
  lifecycle_FrameID :: FrameID
  lifecycle_Name :: string
  lifecycle_Timestamp :: MonotonicTime

text \<open>
  \<^verbatim>\<open>k6stats.PushIfNotDone\<close> of the load-testing library: the container of samples
  goes on the channel unless the context is done.
\<close>

definition PushIfNotDone :: "Sample list \<Rightarrow> World \<Rightarrow> World" where
  "PushIfNotDone container w =
     (if ctx_done w then w else w\<lparr>samples := samples w @ [container]\<rparr>)"

text \<open>
  The block that the three branches of \<open>onPageLifecycle\<close> repeat: the tags of the
  scope, the URL of the frame when the \<^verbatim>\<open>url\<close> system tag is enabled, one sample of
  the metric.
\<close>

definition push_duration :: "Metric \<Rightarrow> frame_ptr \<Rightarrow> MonotonicTime \<Rightarrow> FrameSession \<Rightarrow> World \<Rightarrow> World" where
  "push_duration metric p endTime fs w =
     (let tags = Tags (state w);
          tags' = (if SystemTagURL (state w)
                   then AList.update ''url'' (frame_URL (frame_at w p)) tags else tags)
      in PushIfNotDone
           [\<lparr>sample_Metric = metric, sample_Tags = tags',
             sample_Value = k6stats_D (time_Sub endTime (initTime fs)),
             sample_Time = wall_clock w\<rparr>] w)"

definition eventToMetric :: "string \<Rightarrow> Metric option" where
  "eventToMetric name =
     map_of [(''firstPaint'', BrowserFirstPaint),
             (''firstContentfulPaint'', BrowserFirstContentfulPaint),
             (''firstMeaningfulPaint'', BrowserFirstMeaningfulPaint)] name"

definition onPageLifecycle :: "EventLifecycleEvent \<Rightarrow> FrameSession \<Rightarrow> World \<Rightarrow> FrameSession \<times> World" where
  "onPageLifecycle ev fs w =
     (let fs1 = (if lifecycle_Name ev = ''init'' \<or> lifecycle_Name ev = ''commit''
                 then fs\<lparr>initTime := lifecycle_Timestamp ev\<rparr> else fs)
      in if lifecycle_Name ev = ''load'' then
           (let w1 = w\<lparr>manager := frameLifecycleEvent (lifecycle_FrameID ev) LifecycleEventLoad (manager w)\<rparr>
            in case getFrameByID (manager w1) (lifecycle_FrameID ev) of
                 None \<Rightarrow> (fs1, w1)
               | Some p \<Rightarrow> (fs1, push_duration BrowserLoaded p (lifecycle_Timestamp ev) fs1 w1))
         else if lifecycle_Name ev = ''DOMContentLoaded'' then
           (let w1 = w\<lparr>manager := frameLifecycleEvent (lifecycle_FrameID ev)
                                      LifecycleEventDOMContentLoad (manager w)\<rparr>
            in case getFrameByID (manager w1) (lifecycle_FrameID ev) of
                 None \<Rightarrow> (fs1, w1)
               | Some p \<Rightarrow>
                   (fs1, push_duration BrowserDOMContentLoaded p (lifecycle_Timestamp ev) fs1 w1))
         else
           (case getFrameByID (manager w) (lifecycle_FrameID ev) of
              None \<Rightarrow> (fs1, w)
            | Some p \<Rightarrow>
                (case eventToMetric (lifecycle_Name ev) of
                   None \<Rightarrow> (fs1, w)
                 | Some metric \<Rightarrow>
                     (fs1, push_duration metric p (lifecycle_Timestamp ev) fs1 w))))"

subsection \<open>Targets attached to the session\<close>

record TargetInfo =
  target_TargetID :: TargetID
  target_Type :: string
  target_URL :: string

record EventAttachedToTarget =
  attached_SessionID :: SessionID
  attached_TargetInfo :: TargetInfo

text \<open>
  Modelled from the spec: \<^verbatim>\<open>Page.attachFrameSession\<close> is not in this file; it
  registers the frame session under the frame id.
\<close>

definition attachFrameSession :: "FrameID \<Rightarrow> FrameSession \<Rightarrow> World \<Rightarrow> World" where
  "attachFrameSession fid frameSession w =
     w\<lparr>page := (page w)\<lparr>frameSessions := AList.update fid frameSession (frameSessions (page w))\<rparr>\<rparr>"

text \<open>
  The session of the event is the one the connection resolves for its session id
  (\<^verbatim>\<open>conn.getSession\<close>); sessions are named by their ids.
\<close>

definition onAttachedToTarget ::
  "Env \<Rightarrow> EventAttachedToTarget \<Rightarrow> FrameSession \<Rightarrow> World \<Rightarrow> failure + World" where
  "onAttachedToTarget env ev fs w =
     (let sid = attached_SessionID ev;
          eti = attached_TargetInfo ev;
          tid = target_TargetID eti
      in if target_Type eti = ''iframe'' \<and> target_URL eti \<noteq> [] then
           (case getFrameByID (manager w) tid of
              None \<Rightarrow> Inr w
            | Some frame \<Rightarrow>
                (case NewFrameSession env sid
                        (Some \<lparr>parent_targetID = targetID fs,
                               parent_networkManager = networkManager fs\<rparr>) tid
                        (w\<lparr>manager := removeChildFramesRecursively frame (manager w)\<rparr>) of
                   (Inl (Error err), w1) \<Rightarrow>
                     if \<not> connected (page w1)
                        \<and> strings_Contains err ''websocket: close 1006 (abnormal closure)''
                     then Inr w1
                     else if ctx_done w1 then Inr w1
                     else k6Throw ''cannot create frame session (iframe)'' err
                 | (Inl e, w1) \<Rightarrow> Inl e
                 | (Inr frameSession, w1) \<Rightarrow> Inr (attachFrameSession tid frameSession w1)))
         else if target_Type eti \<noteq> ''worker'' then
           Inr (send_without_reply sid (TargetDetachFromTarget sid)
                 (send_without_reply sid RuntimeRunIfWaitingForDebugger w))
         else
           (case NewWorker env sid tid (target_URL eti) of
              Inl err \<Rightarrow>
                if \<not> connected (page w)
                   \<and> strings_Contains err ''websocket: close 1006 (abnormal closure)''
                then Inr w
                else if ctx_done w then Inr w
                else k6Throw ''cannot create frame session (worker)'' err
            | Inr wk \<Rightarrow>
                Inr (w\<lparr>page := (page w)\<lparr>workers := AList.update sid wk (workers (page w))\<rparr>\<rparr>)))"

subsection \<open>Console and log events\<close>










subsection \<open>The frame-tree walk, in the spec's words\<close>

text \<open>
  The spec describes the seeding of the frame tree as a sequence of calls on the frame
  manager: walking depth-first, \<open>frameAttached(frameId, parentId)\<close> for each non-root
  frame and \<open>frameNavigated(frame, initial=true)\<close> for every frame.
  \<open>frames_depth_first\<close> lists the frames of a tree depth-first (a frame before its
  children, the children in their order), \<open>calls_for\<close> is what one frame gets, and
  \<open>walk\<close> is the whole sequence. \<open>run_calls\<close> makes the calls in order, the first
  navigation that the manager refuses ending the run as \<open>onFrameNavigated\<close> does.
\<close>

datatype ManagerCall =
    FrameAttachedCall FrameID FrameID
  | FrameNavigatedCall cdp_Frame bool

fun frames_depth_first :: "FrameTree \<Rightarrow> cdp_Frame list" where
  "frames_depth_first (FrameTree frame children) =
     frame # concat (map frames_depth_first children)"

definition calls_for :: "cdp_Frame \<Rightarrow> ManagerCall list" where
  "calls_for frame =
     (if ParentID frame \<noteq> [] then [FrameAttachedCall (ID frame) (ParentID frame)] else [])
     @ [FrameNavigatedCall frame True]"

definition walk :: "FrameTree \<Rightarrow> ManagerCall list" where
  "walk t = concat (map calls_for (frames_depth_first t))"

fun run_call :: "Env \<Rightarrow> ManagerCall \<Rightarrow> unit action" where
  "run_call env (FrameAttachedCall fid pid) w = (Inr (), onFrameAttached env fid pid w)"
| "run_call env (FrameNavigatedCall frame initial) w = onFrameNavigated env frame initial w"

fun run_calls :: "Env \<Rightarrow> ManagerCall list \<Rightarrow> unit action" where
  "run_calls env [] w = (Inr (), w)"
| "run_calls env (c # cs) w =
     (case run_call env c w of
        (Inl e, w') \<Rightarrow> (Inl e, w')
      | (Inr _, w') \<Rightarrow> run_calls env cs w')"

subsection \<open>Tolerated replies\<close>

text \<open>
  \<open>forgiving env\<close> is the environment \<open>env\<close> in which the browser accepts a locale or
  timezone override where \<open>env\<close> answers that one is already in effect.
\<close>

definition forgiving_reply :: "Command \<Rightarrow> Reply \<Rightarrow> Reply" where
  "forgiving_reply c r =
     (case r of
        ReplyError err \<Rightarrow>
          (case c of
             EmulationSetLocaleOverride _ \<Rightarrow>
               if strings_Contains err ''Another locale override is already in effect''
               then ReplyOK else r
           | EmulationSetTimezoneOverride _ \<Rightarrow>
               if strings_Contains err ''Timezone override is already in effect''
               then ReplyOK else r
           | _ \<Rightarrow> r)
      | _ \<Rightarrow> r)"

definition forgiving :: "Env \<Rightarrow> Env" where
  "forgiving env = env\<lparr>cdp_reply := (\<lambda>w sid c. forgiving_reply c (cdp_reply env w sid c))\<rparr>"

text \<open>The commands other than the two overrides: their replies are left as they are.\<close>

fun plain :: "Command \<Rightarrow> bool" where
  "plain (EmulationSetLocaleOverride _) = False"
| "plain (EmulationSetTimezoneOverride _) = False"
| "plain _ = True"

subsection \<open>An example environment and state\<close>

text \<open>
  A browser that accepts every command and reports a tree of four frames,
  collaborators that never fail, and a frame
  manager whose attach callback registers the frame under a fresh address and whose
  navigate callback stores the URL (refusing a frame it does not know, unless the
  frame has no parent). The theorems below hold for every environment; this one
  instantiates them.
\<close>

definition fresh_ptr :: "FrameManager \<Rightarrow> frame_ptr" where
  "fresh_ptr m = Suc (fold max (map snd (frames m)) 0)"

definition new_Frame :: "FrameID \<Rightarrow> frame_ptr option \<Rightarrow> Frame" where
  "new_Frame fid par =
     \<lparr>frame_ID = fid, frame_URL = [], parentFrame = par, detached = False,
      lifecycleEvents = [], main_slot = None, utility_slot = None\<rparr>"

definition register_frame :: "FrameID \<Rightarrow> FrameID \<Rightarrow> FrameManager \<Rightarrow> FrameManager" where
  "register_frame fid pid m =
     (case map_of (frames m) fid of
        Some _ \<Rightarrow> m
      | None \<Rightarrow>
          m\<lparr>heap := (heap m)(fresh_ptr m := new_Frame fid (map_of (frames m) pid)),
            frames := frames m @ [(fid, fresh_ptr m)]\<rparr>)"

definition store_url ::
  "FrameID \<Rightarrow> FrameID \<Rightarrow> string \<Rightarrow> string \<Rightarrow> string \<Rightarrow> bool \<Rightarrow> FrameManager \<Rightarrow> string + FrameManager" where
  "store_url fid pid loader name url initial m =
     (case map_of (frames (register_frame fid pid m)) fid of
        None \<Rightarrow> Inl ''unknown frame''
      | Some p \<Rightarrow>
          if pid \<noteq> [] \<and> map_of (frames m) fid = None then Inl ''unknown frame''
          else Inr ((register_frame fid pid m)
                 \<lparr>heap := (heap (register_frame fid pid m))
                    (p := (heap (register_frame fid pid m) p)\<lparr>frame_URL := url\<rparr>)\<rparr>))"

definition example_frame :: "FrameID \<Rightarrow> FrameID \<Rightarrow> string \<Rightarrow> cdp_Frame" where
  "example_frame fid pid url =
     \<lparr>ID = fid, ParentID = pid, LoaderID = ''L'', Name = [], URL = url, URLFragment = []\<rparr>"

definition example_tree :: FrameTree where
  "example_tree =
     FrameTree (example_frame ''F0'' [] ''https://k6.io/'')
       [FrameTree (example_frame ''F1'' ''F0'' ''https://k6.io/frame'')
          [FrameTree (example_frame ''F2'' ''F1'' ''about:blank'') []],
        FrameTree (example_frame ''F3'' ''F0'' ''https://k6.io/ad'') []]"

definition example_env :: Env where
  "example_env =
     \<lparr>cdp_reply = (\<lambda>w sid c.
         case c of
           BrowserGetWindowForTarget _ \<Rightarrow> ReplyWindowID 1
         | PageGetFrameTree \<Rightarrow> ReplyFrameTree (Some example_tree)
         | _ \<Rightarrow> ReplyOK),
      NewNetworkManager = (\<lambda>sid par. Inr (NetworkManager sid par)),
      NewWorker = (\<lambda>sid tid url.
         Inr \<lparr>worker_session = sid, worker_targetID = tid, worker_url = url\<rparr>),
      frameAttached = register_frame,
      frameNavigated = store_url,
      nm_setRequestInterception = (\<lambda>w nm enabled. None),
      parseRemoteObject = (\<lambda>robj. (robj, None)),
      parseErrLevel = (\<lambda>err. WarnLevel),
      evaluationScriptURL = ''__xk6_browser_evaluation_script__''\<rparr>"

definition example_opts :: BrowserContextOptions where
  "example_opts =
     \<lparr>BypassCSP = False, DeviceScaleFactor = 1, ExtraHTTPHeaders = [], Geolocation = None,
      HasTouch = False, HttpCredentials = None, IgnoreHTTPSErrors = False, IsMobile = False,
      JavaScriptEnabled = True, Locale = [], Offline = False, TimezoneID = [],
      UserAgent = []\<rparr>"

definition example_page :: Page where
  "example_page =
     \<lparr>page_targetID = ''T0'', opts = example_opts, connected = True, emulatedSize = None,
      colorScheme = ColorSchemeLight, reducedMotion = ReducedMotionNoPreference,
      mediaType = ''screen'', extraHTTPHeaders = [], hasRoutes = False,
      frameSessions = [], workers = []\<rparr>"

text \<open>
  A page with the main frame \<open>F0\<close> (address 1), its child \<open>F1\<close> (address 2) and the
  grandchild \<open>F2\<close> (address 3).
\<close>

definition example_heap :: "frame_ptr \<Rightarrow> Frame" where
  "example_heap =
     (\<lambda>p. new_Frame [] None)
       (1 := (new_Frame ''F0'' None)\<lparr>frame_URL := ''https://k6.io/''\<rparr>,
        2 := (new_Frame ''F1'' (Some 1))\<lparr>frame_URL := ''https://k6.io/frame''\<rparr>,
        3 := new_Frame ''F2'' (Some 2))"

definition example_manager :: FrameManager where
  "example_manager = \<lparr>heap = example_heap, frames = [(''F0'', 1), (''F1'', 2), (''F2'', 3)]\<rparr>"

definition example_world :: World where
  "example_world =
     \<lparr>manager = example_manager, page = example_page, ctx_done = False,
      state = \<lparr>Tags = [(''scenario'', ''default'')], SystemTagURL = True, Group_Path = []\<rparr>,
      samples = [], wall_clock = 0, sent = [], subscriptions = [], nm_calls = [],
      log_out = []\<rparr>"

definition example_session :: FrameSession where
  "example_session =
     \<lparr>session = ''S0'', parent = None,
      networkManager = Some (NetworkManager ''S0'' None), targetID = ''T0'', windowID = 1,
      initTime = 0, contextIDToContext = [], isolatedWorlds = [], childSessions = []\<rparr>"

text \<open>
  The same browser when a locale and a timezone override are already in effect, and a
  page whose options ask for both.
\<close>

definition already_env :: Env where
  "already_env =
     example_env\<lparr>cdp_reply := (\<lambda>w sid c.
        case c of
          EmulationSetLocaleOverride _ \<Rightarrow>
            ReplyError ''Another locale override is already in effect (-32000)''
        | EmulationSetTimezoneOverride _ \<Rightarrow>
            ReplyError ''Timezone override is already in effect (-32000)''
        | _ \<Rightarrow> cdp_reply example_env w sid c)\<rparr>"

definition localized_world :: World where
  "localized_world =
     example_world\<lparr>page := example_page\<lparr>opts :=
       example_opts\<lparr>Locale := ''en-US'', TimezoneID := ''Europe/Berlin''\<rparr>\<rparr>\<rparr>"

text \<open>
  Events of the example: the out-of-process iframe \<open>F1\<close> attaches on session \<open>S1\<close>, the
  same with an empty URL, and a worker. \<open>closing_env\<close> is the example browser when its
  WebSocket has closed abnormally: the collaborators that talk to it fail.
\<close>

definition iframe_event :: EventAttachedToTarget where
  "iframe_event =
     \<lparr>attached_SessionID = ''S1'',
      attached_TargetInfo =
        \<lparr>target_TargetID = ''F1'', target_Type = ''iframe'',
         target_URL = ''https://k6.io/frame''\<rparr>\<rparr>"

definition blank_iframe_event :: EventAttachedToTarget where
  "blank_iframe_event =
     \<lparr>attached_SessionID = ''S1'',
      attached_TargetInfo =
        \<lparr>target_TargetID = ''F1'', target_Type = ''iframe'', target_URL = []\<rparr>\<rparr>"

definition worker_event :: EventAttachedToTarget where
  "worker_event =
     \<lparr>attached_SessionID = ''S2'',
      attached_TargetInfo =
        \<lparr>target_TargetID = ''W1'', target_Type = ''worker'',
         target_URL = ''https://k6.io/worker.js''\<rparr>\<rparr>"

definition closing_env :: Env where
  "closing_env =
     example_env
       \<lparr>NewNetworkManager := (\<lambda>sid par. Inl ''websocket: close 1006 (abnormal closure): unexpected EOF''),
        NewWorker := (\<lambda>sid tid url. Inl ''websocket: close 1006 (abnormal closure): unexpected EOF'')\<rparr>"

definition disconnected_world :: World where
  "disconnected_world = example_world\<lparr>page := example_page\<lparr>connected := False\<rparr>\<rparr>"

text \<open>
  What clearing the execution contexts leaves in a world slot, in the spec's words
  (null every frame slot referenced by the map): the slot of the frame at \<open>p\<close> is
  nulled when some context of the map is owned by that frame and the slot holds a
  context with that context's id; \<open>null_all\<close> does so for both slots of every frame.
\<close>

definition cleared ::
  "(ExecutionContextID \<times> ExecutionContext) list \<Rightarrow> frame_ptr \<Rightarrow> ExecutionContext option
     \<Rightarrow> ExecutionContext option" where
  "cleared m p slot =
     (if \<exists>kv \<in> set m. ec_frame (snd kv) = Some p \<and> holds_id (ec_id (snd kv)) slot
      then None else slot)"

definition null_all :: "(ExecutionContextID \<times> ExecutionContext) list \<Rightarrow> World \<Rightarrow> World" where
  "null_all m w =
     w\<lparr>manager := (manager w)\<lparr>heap := (\<lambda>p. (frame_at w p)
          \<lparr>main_slot := cleared m p (main_slot (frame_at w p)),
            utility_slot := cleared m p (utility_slot (frame_at w p))\<rparr>)\<rparr>\<rparr>"







text \<open>The example page before any frame is known to the frame manager.\<close>

definition unseeded_world :: World where
  "unseeded_world = example_world\<lparr>manager := example_manager\<lparr>frames := []\<rparr>\<rparr>"

text \<open>
  The session of the out-of-process iframe \<open>F1\<close> of the example, and the example
  environment with a frame manager that refuses every navigation.
\<close>

definition child_session :: FrameSession where
  "child_session =
     \<lparr>session = ''S1'',
      parent = Some \<lparr>parent_targetID = ''T0'',
                     parent_networkManager = Some (NetworkManager ''S0'' None)\<rparr>,
      networkManager = Some (NetworkManager ''S1'' (Some (NetworkManager ''S0'' None))),
      targetID = ''F1'', windowID = 1, initTime = 0, contextIDToContext = [],
      isolatedWorlds = [], childSessions = []\<rparr>"

definition refusing_env :: Env where
  "refusing_env =
     example_env\<lparr>frameNavigated := (\<lambda>fid pid loader name url initial m. Inl ''refused'')\<rparr>"

text \<open>
  The sample that the spec describes for a lifecycle event: the metric, the tags of
  the scope with the URL of the frame when the \<^verbatim>\<open>url\<close> system tag is enabled, and as
  value the duration from the session's init timestamp to the timestamp of the event.
\<close>

definition duration_sample ::
  "Metric \<Rightarrow> frame_ptr \<Rightarrow> EventLifecycleEvent \<Rightarrow> FrameSession \<Rightarrow> World \<Rightarrow> Sample" where
  "duration_sample metric p ev fs w =
     \<lparr>sample_Metric = metric,
      sample_Tags = (if SystemTagURL (state w)
                     then AList.update ''url'' (frame_URL (frame_at w p)) (Tags (state w))
                     else Tags (state w)),
      sample_Value = k6stats_D (time_Sub (lifecycle_Timestamp ev) (initTime fs)),
      sample_Time = wall_clock w\<rparr>"

text \<open>The metric of a lifecycle event, by its name.\<close>

definition lifecycle_metric :: "string \<Rightarrow> Metric option" where
  "lifecycle_metric name =
     (if name = ''load'' then Some BrowserLoaded
      else if name = ''DOMContentLoaded'' then Some BrowserDOMContentLoaded
      else if name = ''firstPaint'' then Some BrowserFirstPaint
      else if name = ''firstContentfulPaint'' then Some BrowserFirstContentfulPaint
      else if name = ''firstMeaningfulPaint'' then Some BrowserFirstMeaningfulPaint
      else None)"

text \<open>
  Lifecycle events of the example, and the example session one second after its init
  event.
\<close>

definition lifecycle_event :: "string \<Rightarrow> FrameID \<Rightarrow> MonotonicTime \<Rightarrow> EventLifecycleEvent" where
  "lifecycle_event name fid ts =
     \<lparr>lifecycle_FrameID = fid, lifecycle_Name = name, lifecycle_Timestamp = ts\<rparr>"

definition started_session :: FrameSession where
  "started_session = example_session\<lparr>initTime := 1000000000\<rparr>"





section \<open>Properties\<close>

subsection \<open>Evaluation helpers\<close>

lemma strings_Contains_simps [simp]:
  "strings_Contains [] (y # ys) = False"
  "strings_Contains s [] = True"
  "strings_Contains (x # xs) (y # ys) = (prefix (y # ys) (x # xs) \<or> strings_Contains xs (y # ys))"
  by (simp_all add: strings_Contains_def sublist_Cons_right)

lemmas example_defs =
  example_env_def example_world_def example_page_def example_opts_def example_session_def
  example_manager_def example_heap_def example_tree_def example_frame_def new_Frame_def

subsection \<open>Replies that an override is already in effect\<close>

lemma forgiving_fields [simp]:
  "NewNetworkManager (forgiving env) = NewNetworkManager env"
  "NewWorker (forgiving env) = NewWorker env"
  "frameAttached (forgiving env) = frameAttached env"
  "frameNavigated (forgiving env) = frameNavigated env"
  "nm_setRequestInterception (forgiving env) = nm_setRequestInterception env"
  "evaluationScriptURL (forgiving env) = evaluationScriptURL env"
  "cdp_reply (forgiving env) w sid c = forgiving_reply c (cdp_reply env w sid c)"
  by (simp_all add: forgiving_def)

lemma forgiving_reply_plain: "plain c \<Longrightarrow> forgiving_reply c r = r"
  by (cases c) (simp_all add: forgiving_reply_def split: Reply.splits)

lemma execute_plain: "plain c \<Longrightarrow> execute (forgiving env) sid c w = execute env sid c w"
  by (simp add: execute_def forgiving_reply_plain)

lemma Do_plain: "plain c \<Longrightarrow> Do (forgiving env) sid c w = Do env sid c w"
  by (simp add: Do_def execute_plain)

lemma do_actions_plain_at:
  "list_all plain cs \<Longrightarrow> do_actions (forgiving env) sid cs w = do_actions env sid cs w"
  by (induction cs arbitrary: w) (simp_all add: Do_plain split: prod.splits option.splits)

lemma do_actions_plain:
  "list_all plain cs \<Longrightarrow> do_actions (forgiving env) sid cs = do_actions env sid cs"
  by (rule ext) (rule do_actions_plain_at)

lemma emulateLocale_forgiving: "emulateLocale (forgiving env) fs = emulateLocale env fs"
  by (rule ext)
    (simp add: emulateLocale_def Do_def execute_def forgiving_reply_def split: Reply.splits)

lemma emulateTimezone_forgiving: "emulateTimezone (forgiving env) fs = emulateTimezone env fs"
  by (rule ext)
    (simp add: emulateTimezone_def Do_def execute_def forgiving_reply_def split: Reply.splits)

lemma updateViewport_forgiving: "updateViewport (forgiving env) fs = updateViewport env fs"
  by (rule ext)
    (simp add: updateViewport_def Do_plain Let_def split: prod.splits option.splits)

lemma updateGeolocation_forgiving:
  "updateGeolocation (forgiving env) fs b = updateGeolocation env fs b"
  by (rule ext)
    (simp add: updateGeolocation_def Do_plain Let_def split: prod.splits option.splits)

lemma updateRequestInterception_forgiving:
  "updateRequestInterception (forgiving env) fs b = updateRequestInterception env fs b"
  by (rule ext)
    (simp add: updateRequestInterception_def split: prod.splits sum.splits option.splits)

lemma updateEmulateMedia_forgiving:
  "updateEmulateMedia (forgiving env) fs b = updateEmulateMedia env fs b"
  by (rule ext)
    (simp add: updateEmulateMedia_def Do_plain Let_def split: prod.splits option.splits)

lemma optActions_plain: "list_all plain (optActions fs w)"
  by (simp add: optActions_def Let_def)

lemma initOptions_forgiving: "initOptions (forgiving env) fs = initOptions env fs"
  by (rule ext)
    (simp add: initOptions_def emulateLocale_forgiving emulateTimezone_forgiving
       updateViewport_forgiving updateGeolocation_forgiving
       updateRequestInterception_forgiving updateEmulateMedia_forgiving
       do_actions_plain optActions_plain Let_def cong: if_cong)

lemma initDomains_forgiving: "initDomains (forgiving env) fs = initDomains env fs"
  by (simp add: initDomains_def do_actions_plain)

lemma onFrameNavigated_forgiving:
  "onFrameNavigated (forgiving env) f b = onFrameNavigated env f b"
  by (rule ext) (simp add: onFrameNavigated_def)

lemma onFrameAttached_forgiving:
  "onFrameAttached (forgiving env) a b = onFrameAttached env a b"
  by (rule ext) (simp add: onFrameAttached_def)

lemma handleFrameTree_forgiving:
  "handleFrameTree (forgiving env) t w = handleFrameTree env t w"
  "handleChildFrames (forgiving env) ts w = handleChildFrames env ts w"
  by (induction env t w and env ts w rule: handleFrameTree_handleChildFrames.induct)
    (auto simp: onFrameNavigated_forgiving onFrameAttached_forgiving Let_def
       split: prod.splits sum.splits)

lemma initFrameTree_forgiving: "initFrameTree (forgiving env) fs = initFrameTree env fs"
  by (rule ext)
    (simp add: initFrameTree_def Do_plain execute_plain handleFrameTree_forgiving Let_def
       split: prod.splits Reply.splits option.splits sum.splits)

lemma initIsolatedWorld_forgiving:
  "initIsolatedWorld (forgiving env) n fs = initIsolatedWorld env n fs"
  by (rule ext)
    (simp add: initIsolatedWorld_def Do_plain Let_def
       cong: prod.case_cong option.case_cong sum.case_cong if_cong)

lemma NewFrameSession_forgiving:
  "NewFrameSession (forgiving env) sid par tid w = NewFrameSession env sid par tid w"
  by (simp add: NewFrameSession_def execute_plain initFrameTree_forgiving
       initIsolatedWorld_forgiving initDomains_forgiving initOptions_forgiving Let_def
       split: prod.splits Reply.splits option.splits sum.splits)

text \<open>
  Claim C6. When the browser answers the locale override with an error, \<open>emulateLocale\<close>
  returns nil if the text of the error contains
  \<^verbatim>\<open>Another locale override is already in effect\<close>, and otherwise returns the error
  wrapped as \<^verbatim>\<open>unable to set locale: ...\<close>; \<open>emulateTimezone\<close> does the same with
  \<^verbatim>\<open>Timezone override is already in effect\<close> and \<^verbatim>\<open>unable to set timezone ID: ...\<close>.
  In both cases the command has been sent. Hence the construction of a frame session
  cannot tell such an answer from an accepted override: it runs the same, to the same
  result and state, in the environment where these answers are replaced by success.
\<close>

theorem already_in_effect_is_success:
  "(\<forall>err. cdp_reply env w (session fs) (EmulationSetLocaleOverride (Locale (opts (page w))))
            = ReplyError err \<longrightarrow>
      emulateLocale env fs w =
        (if strings_Contains err ''Another locale override is already in effect'' then Inr ()
         else Inl (Error (''unable to set locale: '' @ err)),
         w\<lparr>sent := sent w @
              [Execute (session fs) (EmulationSetLocaleOverride (Locale (opts (page w))))]\<rparr>))
   \<and> (\<forall>err. cdp_reply env w (session fs)
               (EmulationSetTimezoneOverride (TimezoneID (opts (page w)))) = ReplyError err \<longrightarrow>
      emulateTimezone env fs w =
        (if strings_Contains err ''Timezone override is already in effect'' then Inr ()
         else Inl (Error (''unable to set timezone ID: '' @ err)),
         w\<lparr>sent := sent w @
              [Execute (session fs)
                 (EmulationSetTimezoneOverride (TimezoneID (opts (page w))))]\<rparr>))
   \<and> NewFrameSession env sid par tid w = NewFrameSession (forgiving env) sid par tid w"
  by (simp add: emulateLocale_def emulateTimezone_def Do_def execute_def Errorf_def
       NewFrameSession_forgiving)

theorem already_in_effect_is_success_witness:
  "cdp_reply already_env localized_world ''S0'' (EmulationSetLocaleOverride ''en-US'')
     = ReplyError ''Another locale override is already in effect (-32000)''
   \<and> emulateLocale already_env example_session localized_world =
        (Inr (), localized_world\<lparr>sent := [Execute ''S0'' (EmulationSetLocaleOverride ''en-US'')]\<rparr>)
   \<and> cdp_reply already_env localized_world ''S0'' (EmulationSetTimezoneOverride ''Europe/Berlin'')
     = ReplyError ''Timezone override is already in effect (-32000)''
   \<and> emulateTimezone already_env example_session localized_world =
        (Inr (), localized_world\<lparr>sent :=
           [Execute ''S0'' (EmulationSetTimezoneOverride ''Europe/Berlin'')]\<rparr>)
   \<and> NewFrameSession already_env ''S0'' None ''T0'' localized_world
       = NewFrameSession (forgiving already_env) ''S0'' None ''T0'' localized_world"
  using already_in_effect_is_success
    [of already_env localized_world example_session "''S0''" None "''T0''"]
  by (simp add: already_env_def localized_world_def example_defs)

subsection \<open>Geolocation\<close>

text \<open>
  Claim C9. While the geolocation option of the browser context is nil,
  \<open>updateGeolocation\<close> with \<open>initial = true\<close> sends no command and returns nil (the state
  is unchanged), and with \<open>initial = false\<close> it passes the guard
  \<^verbatim>\<open>!initial || geolocation != nil\<close> and reads the fields of the nil pointer: the call
  ends in a nil dereference, not in a result.
\<close>

theorem updateGeolocation_nil:
  "Geolocation (opts (page w)) = None \<Longrightarrow>
     updateGeolocation env fs True w = (Inr (), w)
     \<and> updateGeolocation env fs False w = (Inl (NilDereference ''geolocation''), w)"
  by (simp add: updateGeolocation_def)

theorem updateGeolocation_nil_witness:
  "Geolocation (opts (page example_world)) = None
   \<and> updateGeolocation example_env example_session True example_world = (Inr (), example_world)
   \<and> updateGeolocation example_env example_session False example_world
       = (Inl (NilDereference ''geolocation''), example_world)"
  using updateGeolocation_nil [of example_world example_env example_session]
  by (simp add: example_world_def example_page_def example_opts_def)

subsection \<open>Targets attached to the session\<close>

text \<open>
  Claim C10. An attached target of type \<^verbatim>\<open>iframe\<close> whose URL is empty takes neither the
  iframe branch nor the worker branch: the handler sends
  \<^verbatim>\<open>Runtime.runIfWaitingForDebugger\<close> and then \<^verbatim>\<open>Target.detachFromTarget\<close> on the new
  session, both without expectation on reply, and changes nothing else: the frame
  manager, the page with its registry of frame sessions and its workers, and the
  session itself stay as they were.
\<close>

theorem iframe_without_url_is_detached:
  "target_Type (attached_TargetInfo ev) = ''iframe'' \<Longrightarrow>
   target_URL (attached_TargetInfo ev) = [] \<Longrightarrow>
   onAttachedToTarget env ev fs w =
     Inr (w\<lparr>sent := sent w @
            [ExecuteWithoutExpectationOnReply (attached_SessionID ev)
               RuntimeRunIfWaitingForDebugger,
             ExecuteWithoutExpectationOnReply (attached_SessionID ev)
               (TargetDetachFromTarget (attached_SessionID ev))]\<rparr>)"
  by (simp add: onAttachedToTarget_def send_without_reply_def Let_def)

theorem iframe_without_url_is_detached_witness:
  "target_Type (attached_TargetInfo blank_iframe_event) = ''iframe''
   \<and> target_URL (attached_TargetInfo blank_iframe_event) = []
   \<and> onAttachedToTarget example_env blank_iframe_event example_session example_world =
       Inr (example_world\<lparr>sent :=
            [ExecuteWithoutExpectationOnReply ''S1'' RuntimeRunIfWaitingForDebugger,
             ExecuteWithoutExpectationOnReply ''S1'' (TargetDetachFromTarget ''S1'')]\<rparr>)"
  using iframe_without_url_is_detached
    [of blank_iframe_event example_env example_session example_world]
  by (simp add: blank_iframe_event_def example_world_def)

text \<open>
  Claim C7. When the construction of the child frame session fails with an error
  (iframe branch, after the descendants of the frame have been removed), or the
  construction of the worker does (worker branch), the handler first checks whether
  the browser is no longer connected and the text of the error contains
  \<^verbatim>\<open>websocket: close 1006 (abnormal closure)\<close>, and returns if so; otherwise it
  returns if the context of the session is done; otherwise it escalates through
  \<open>k6Throw\<close> with the error wrapped as \<^verbatim>\<open>cannot create frame session (iframe): ...\<close>
  (respectively \<^verbatim>\<open>(worker)\<close>). Nothing is registered in any of the three cases.
\<close>

theorem construction_failure_handling:
  "(target_Type (attached_TargetInfo ev) = ''iframe''
      \<and> target_URL (attached_TargetInfo ev) \<noteq> [] \<longrightarrow>
      (\<forall>frame err w1.
         getFrameByID (manager w) (target_TargetID (attached_TargetInfo ev)) = Some frame \<longrightarrow>
         NewFrameSession env (attached_SessionID ev)
           (Some \<lparr>parent_targetID = targetID fs, parent_networkManager = networkManager fs\<rparr>)
           (target_TargetID (attached_TargetInfo ev))
           (w\<lparr>manager := removeChildFramesRecursively frame (manager w)\<rparr>)
           = (Inl (Error err), w1) \<longrightarrow>
         onAttachedToTarget env ev fs w =
           (if \<not> connected (page w1)
               \<and> strings_Contains err ''websocket: close 1006 (abnormal closure)''
            then Inr w1
            else if ctx_done w1 then Inr w1
            else Inl (Fatal (''cannot create frame session (iframe): '' @ err)))))
   \<and> (target_Type (attached_TargetInfo ev) = ''worker'' \<longrightarrow>
      (\<forall>err.
         NewWorker env (attached_SessionID ev) (target_TargetID (attached_TargetInfo ev))
           (target_URL (attached_TargetInfo ev)) = Inl err \<longrightarrow>
         onAttachedToTarget env ev fs w =
           (if \<not> connected (page w)
               \<and> strings_Contains err ''websocket: close 1006 (abnormal closure)''
            then Inr w
            else if ctx_done w then Inr w
            else Inl (Fatal (''cannot create frame session (worker): '' @ err)))))"
  by (simp add: onAttachedToTarget_def Let_def k6Throw_def Errorf_def)

theorem construction_failure_handling_witness:
  "onAttachedToTarget closing_env iframe_event example_session example_world
       = Inl (Fatal ''cannot create frame session (iframe): websocket: close 1006 (abnormal closure): unexpected EOF'')
   \<and> onAttachedToTarget closing_env iframe_event example_session disconnected_world
       = Inr (disconnected_world\<lparr>manager := removeChildFramesRecursively 2 example_manager\<rparr>)
   \<and> onAttachedToTarget closing_env iframe_event example_session (example_world\<lparr>ctx_done := True\<rparr>)
       = Inr (example_world\<lparr>ctx_done := True, manager := removeChildFramesRecursively 2 example_manager\<rparr>)
   \<and> onAttachedToTarget closing_env worker_event example_session example_world
       = Inl (Fatal ''cannot create frame session (worker): websocket: close 1006 (abnormal closure): unexpected EOF'')
   \<and> onAttachedToTarget closing_env worker_event example_session disconnected_world
       = Inr disconnected_world"
proof -
  let ?err = "''websocket: close 1006 (abnormal closure): unexpected EOF''"
  have ev: "target_Type (attached_TargetInfo iframe_event) = ''iframe''"
    "target_URL (attached_TargetInfo iframe_event) \<noteq> []"
    "target_Type (attached_TargetInfo worker_event) = ''worker''"
    by (simp_all add: iframe_event_def worker_event_def)
  have frame: "getFrameByID (manager w) (target_TargetID (attached_TargetInfo iframe_event)) = Some 2"
    if "manager w = example_manager" for w :: World
    using that by (simp add: getFrameByID_def iframe_event_def example_manager_def)
  have fails: "NewFrameSession closing_env sid par tid w = (Inl (Error ?err), w)" for sid par tid w
    by (simp add: NewFrameSession_def closing_env_def)
  have worker: "NewWorker closing_env sid tid url = Inl ?err" for sid tid url
    by (simp add: closing_env_def)
  have m: "manager example_world = example_manager" "manager disconnected_world = example_manager"
    "manager (example_world\<lparr>ctx_done := True\<rparr>) = example_manager"
    by (simp_all add: example_world_def disconnected_world_def)
  have c: "connected (page example_world)" "\<not> ctx_done example_world"
    "\<not> connected (page disconnected_world)"
    by (simp_all add: example_world_def disconnected_world_def example_page_def)
  note inst = construction_failure_handling [where env = closing_env and fs = example_session]
  have 1: "onAttachedToTarget closing_env iframe_event example_session example_world
       = Inl (Fatal (''cannot create frame session (iframe): '' @ ?err))"
    using inst [of iframe_event example_world] ev frame [OF m(1)] fails c by simp
  have 2: "onAttachedToTarget closing_env iframe_event example_session disconnected_world
       = Inr (disconnected_world\<lparr>manager := removeChildFramesRecursively 2 example_manager\<rparr>)"
    using inst [of iframe_event disconnected_world] ev frame [OF m(2)] fails c m by simp
  have 3: "onAttachedToTarget closing_env iframe_event example_session (example_world\<lparr>ctx_done := True\<rparr>)
       = Inr (example_world\<lparr>ctx_done := True, manager := removeChildFramesRecursively 2 example_manager\<rparr>)"
    using inst [of iframe_event "example_world\<lparr>ctx_done := True\<rparr>"] ev frame [OF m(3)] fails m by simp
  have 4: "onAttachedToTarget closing_env worker_event example_session example_world
       = Inl (Fatal (''cannot create frame session (worker): '' @ ?err))"
    using inst [of worker_event example_world] ev worker c by simp
  have 5: "onAttachedToTarget closing_env worker_event example_session disconnected_world
       = Inr disconnected_world"
    using inst [of worker_event disconnected_world] ev worker c by simp
  from 1 2 3 4 5 show ?thesis by simp
qed

subsection \<open>Execution contexts\<close>

lemma holds_id_None [simp]: "\<not> holds_id i None"
  by (simp add: holds_id_def)



lemma cleared_None [simp]: "cleared m p None = None"
  by (simp add: cleared_def)







lemma world_names [simp]:
  "mainExecutionContext \<noteq> []" "utilityExecutionContext \<noteq> []"
  "utilityExecutionContext \<noteq> mainExecutionContext"
  by (simp_all add: mainExecutionContext_def utilityExecutionContext_def)



lemma frame_at_update [simp]:
  "frame_at (update_frame p f w) q = (if q = p then f else frame_at w q)"
  by (simp add: update_frame_def frame_at_def)

lemma manager_frames_update [simp]:
  "getFrameByID (manager (update_frame p f w)) fid = getFrameByID (manager w) fid"
  by (simp add: update_frame_def getFrameByID_def)

lemma getFrameByID_null_all [simp]:
  "getFrameByID (manager (null_all m w)) fid = getFrameByID (manager w) fid"
  by (simp add: null_all_def getFrameByID_def)








subsection \<open>Iframes attached to the session\<close>

lemmas ctor_defs = NewFrameSession_def initEvents_def initFrameTree_def initIsolatedWorld_def
  initDomains_def initOptions_def isMainFrame_def session_on_def initRendererEvents_def
  execute_def Do_def and_then_def skip_def updateViewport_def emulateLocale_def emulateTimezone_def
  updateGeolocation_def updateExtraHTTPHeaders_def updateRequestInterception_def updateOffline_def
  updateHttpCredentials_def updateEmulateMedia_def optActions_def nm_call_def mergedHeaders_def
  media_features_def send_without_reply_def Frames_def getFrameByID_def Errorf_def

lemma initIsolatedWorld_fields:
  "initIsolatedWorld env n fs w = (Inr fs2, w2) \<Longrightarrow>
     session fs2 = session fs \<and> targetID fs2 = targetID fs \<and> parent fs2 = parent fs
     \<and> networkManager fs2 = networkManager fs"
  by (auto simp: initIsolatedWorld_def Let_def split: prod.splits option.splits sum.splits if_splits)

lemma NewFrameSession_fields:
  "NewFrameSession env sid par tid w = (Inr fs', w') \<Longrightarrow>
     session fs' = sid \<and> targetID fs' = tid \<and> parent fs' = par"
  by (auto simp: NewFrameSession_def Let_def and_then_def
        split: prod.splits option.splits sum.splits Reply.splits
        dest!: initIsolatedWorld_fields)

lemma Frames_removeChildFramesRecursively:
  "set (Frames (removeChildFramesRecursively p m)) = {x \<in> set (Frames m). \<not> descendant m p x}"
  by (auto simp: Frames_def removeChildFramesRecursively_def)

text \<open>
  Claim C2. For an attached target of type \<^verbatim>\<open>iframe\<close> with a non-empty URL: when no
  frame is registered under the target id, the handler returns and the state is the
  one it started with. When a frame is registered, the handler removes the frame's
  descendants (the frames that remain registered are exactly those that were not
  descendants of the frame), then constructs a frame session on the state so obtained,
  for the session of the event, with this session as its parent and the target id as
  its target; when the construction succeeds, the new frame session is registered
  under the frame id.
\<close>

theorem iframe_attached:
  "target_Type (attached_TargetInfo ev) = ''iframe'' \<Longrightarrow>
   target_URL (attached_TargetInfo ev) \<noteq> [] \<Longrightarrow>
   (getFrameByID (manager w) (target_TargetID (attached_TargetInfo ev)) = None \<longrightarrow>
      onAttachedToTarget env ev fs w = Inr w)
   \<and> (\<forall>frame fs' w1.
        getFrameByID (manager w) (target_TargetID (attached_TargetInfo ev)) = Some frame \<longrightarrow>
        NewFrameSession env (attached_SessionID ev)
          (Some \<lparr>parent_targetID = targetID fs, parent_networkManager = networkManager fs\<rparr>)
          (target_TargetID (attached_TargetInfo ev))
          (w\<lparr>manager := removeChildFramesRecursively frame (manager w)\<rparr>) = (Inr fs', w1) \<longrightarrow>
        onAttachedToTarget env ev fs w
          = Inr (attachFrameSession (target_TargetID (attached_TargetInfo ev)) fs' w1)
        \<and> map_of (frameSessions (page (attachFrameSession
               (target_TargetID (attached_TargetInfo ev)) fs' w1)))
             (target_TargetID (attached_TargetInfo ev)) = Some fs'
        \<and> session fs' = attached_SessionID ev
        \<and> targetID fs' = target_TargetID (attached_TargetInfo ev)
        \<and> parent fs'
            = Some \<lparr>parent_targetID = targetID fs, parent_networkManager = networkManager fs\<rparr>
        \<and> set (Frames (removeChildFramesRecursively frame (manager w)))
            = {x \<in> set (Frames (manager w)). \<not> descendant (manager w) frame x})"
  by (auto simp: onAttachedToTarget_def Let_def attachFrameSession_def update_conv'
        Frames_removeChildFramesRecursively dest: NewFrameSession_fields)

theorem iframe_attached_witness:
  "target_Type (attached_TargetInfo iframe_event) = ''iframe''
   \<and> target_URL (attached_TargetInfo iframe_event) \<noteq> []
   \<and> getFrameByID (manager unseeded_world) ''F1'' = None
   \<and> onAttachedToTarget example_env iframe_event example_session unseeded_world
       = Inr unseeded_world
   \<and> getFrameByID (manager example_world) ''F1'' = Some 2
   \<and> map_sum id (\<lambda>w. frames (manager w))
        (onAttachedToTarget example_env iframe_event example_session example_world)
       = Inr [(''F0'', 1), (''F1'', 2)]
   \<and> map_sum id (\<lambda>w. map_option session (map_of (frameSessions (page w)) ''F1''))
        (onAttachedToTarget example_env iframe_event example_session example_world)
       = Inr (Some ''S1'')"
proof -
  have ev: "target_Type (attached_TargetInfo iframe_event) = ''iframe''"
    "target_URL (attached_TargetInfo iframe_event) \<noteq> []"
    "target_TargetID (attached_TargetInfo iframe_event) = ''F1''"
    "attached_SessionID iframe_event = ''S1''"
    by (simp_all add: iframe_event_def)
  have unknown: "getFrameByID (manager unseeded_world) ''F1'' = None"
    by (simp add: unseeded_world_def getFrameByID_def)
  have known: "getFrameByID (manager example_world) ''F1'' = Some 2"
    by (simp add: getFrameByID_def example_world_def example_manager_def)
  have pruned: "frames (removeChildFramesRecursively 2 example_manager)
      = [(''F0'', 1), (''F1'', 2)]"
    by (simp add: removeChildFramesRecursively_def descendant_def example_manager_def
          example_heap_def new_Frame_def)
  have w0: "example_world\<lparr>manager := removeChildFramesRecursively 2 (manager example_world)\<rparr>
      = example_world\<lparr>manager := removeChildFramesRecursively 2 example_manager\<rparr>"
    by (simp add: example_world_def)
  have par: "targetID example_session = ''T0''"
    "networkManager example_session = Some (NetworkManager ''S0'' None)"
    by (simp_all add: example_session_def)
  have "\<exists>fs' w1.
     NewFrameSession example_env ''S1''
       (Some \<lparr>parent_targetID = ''T0'',
              parent_networkManager = Some (NetworkManager ''S0'' None)\<rparr>) ''F1''
       (example_world\<lparr>manager := removeChildFramesRecursively 2 example_manager\<rparr>)
       = (Inr fs', w1)
     \<and> frames (manager w1) = [(''F0'', 1), (''F1'', 2)]"
    by (simp add: ctor_defs Let_def pruned example_env_def example_world_def example_page_def
          example_opts_def utilityWorldName_def)
  then obtain fs' w1 where
    n: "NewFrameSession example_env ''S1''
       (Some \<lparr>parent_targetID = targetID example_session,
              parent_networkManager = networkManager example_session\<rparr>) ''F1''
       (example_world\<lparr>manager := removeChildFramesRecursively 2 (manager example_world)\<rparr>)
       = (Inr fs', w1)"
    and f: "frames (manager w1) = [(''F0'', 1), (''F1'', 2)]"
    unfolding w0 par by (elim exE conjE)
  from iframe_attached [of iframe_event unseeded_world example_env example_session] ev unknown
  have 1: "onAttachedToTarget example_env iframe_event example_session unseeded_world
       = Inr unseeded_world"
    by simp
  from iframe_attached [of iframe_event example_world example_env example_session] ev known n
  have 2: "onAttachedToTarget example_env iframe_event example_session example_world
          = Inr (attachFrameSession ''F1'' fs' w1)"
       "map_of (frameSessions (page (attachFrameSession ''F1'' fs' w1))) ''F1'' = Some fs'"
       "session fs' = ''S1''"
    by simp_all
  from ev unknown known 1 2 f show ?thesis
    by (simp add: attachFrameSession_def)
qed

subsection \<open>Seeding the frame tree\<close>

lemma run_calls_append:
  "run_calls env (xs @ ys) w =
     (case run_calls env xs w of
        (Inl e, w') \<Rightarrow> (Inl e, w')
      | (Inr u, w') \<Rightarrow> run_calls env ys w')"
  by (induction xs arbitrary: w) (simp_all split: prod.splits sum.splits)

lemma run_calls_for:
  "run_calls env (calls_for frame) w =
     onFrameNavigated env frame True
       (if ParentID frame \<noteq> [] then onFrameAttached env (ID frame) (ParentID frame) w else w)"
  by (simp add: calls_for_def split: prod.splits sum.splits)

lemma concat_map_concat:
  "concat (map g (concat xss)) = concat (map (\<lambda>xs. concat (map g xs)) xss)"
  by (induction xss) simp_all

lemma walk_FrameTree:
  "walk (FrameTree frame children) = calls_for frame @ concat (map walk children)"
  by (simp add: walk_def [abs_def] concat_map_concat comp_def)

lemma handleFrameTree_run_calls:
  "handleFrameTree env t w = run_calls env (walk t) w"
  "handleChildFrames env ts w = run_calls env (concat (map walk ts)) w"
  by (induction env t w and env ts w rule: handleFrameTree_handleChildFrames.induct)
     (auto simp: walk_FrameTree run_calls_append run_calls_for Let_def
        split: prod.splits sum.splits)

lemmas walk_eval = walk_def calls_for_def example_tree_def example_frame_def
  onFrameAttached_def onFrameNavigated_def register_frame_def store_url_def fresh_ptr_def
  new_Frame_def k6Throw_def Errorf_def

lemmas world_eval = example_env_def unseeded_world_def example_world_def example_manager_def

text \<open>
  The claim C5 as it stands fails: a frame session that is not the page's main one
  fetches the frame tree and makes no call on the frame manager (here the frame \<open>F3\<close>
  of the returned tree stays unknown, where the walk would have registered it), and
  a navigation that the frame manager refuses ends the walk with a fatal error before
  the remaining frames are attached or navigated.
\<close>

theorem frame_tree_walk_counterexample:
  "\<not> isMainFrame child_session example_world
   \<and> cdp_reply example_env (example_world\<lparr>sent := [Execute ''S1'' PageEnable]\<rparr>) ''S1''
        PageGetFrameTree = ReplyFrameTree (Some example_tree)
   \<and> FrameAttachedCall ''F3'' ''F0'' \<in> set (walk example_tree)
   \<and> initFrameTree example_env child_session example_world
       = (Inr (), example_world\<lparr>sent := [Execute ''S1'' PageEnable,
                                            Execute ''S1'' PageGetFrameTree]\<rparr>)
   \<and> getFrameByID (manager example_world) ''F3'' = None
   \<and> map fst (frames (manager (snd (run_calls example_env (walk example_tree) example_world))))
       = [''F0'', ''F1'', ''F2'', ''F3'']
   \<and> handleFrameTree refusing_env example_tree unseeded_world
       = (Inl (Fatal ''cannot handle frame navigation: refused''), unseeded_world)"
proof -
  have 1: "\<not> isMainFrame child_session example_world"
    by (simp add: isMainFrame_def child_session_def example_world_def example_page_def)
  have 2: "cdp_reply example_env (example_world\<lparr>sent := [Execute ''S1'' PageEnable]\<rparr>) ''S1''
        PageGetFrameTree = ReplyFrameTree (Some example_tree)"
    by (simp add: example_env_def)
  have 3: "FrameAttachedCall ''F3'' ''F0'' \<in> set (walk example_tree)"
    by (simp add: walk_eval)
  have 4: "initFrameTree example_env child_session example_world
       = (Inr (), example_world\<lparr>sent := [Execute ''S1'' PageEnable,
                                            Execute ''S1'' PageGetFrameTree]\<rparr>)"
    by (simp add: initFrameTree_def Do_def execute_def isMainFrame_def child_session_def
          example_env_def example_world_def example_page_def)
  have 5: "getFrameByID (manager example_world) ''F3'' = None"
    by (simp add: getFrameByID_def example_world_def example_manager_def)
  have 6: "map fst (frames (manager (snd (run_calls example_env (walk example_tree) example_world))))
       = [''F0'', ''F1'', ''F2'', ''F3'']"
    by (simp add: walk_eval world_eval)
  have 7: "handleFrameTree refusing_env example_tree unseeded_world
       = (Inl (Fatal ''cannot handle frame navigation: refused''), unseeded_world)"
    by (simp add: handleFrameTree_run_calls walk_eval refusing_env_def example_env_def)
  from 1 2 3 4 5 6 7 show ?thesis by simp
qed

text \<open>
  Claim C5, amended. \<open>handleFrameTree\<close> makes the calls of \<open>walk\<close>, in that order,
  up to the first navigation that the frame manager refuses (which escalates as
  fatal):  depth-first, for each frame \<open>frameAttached(frameId, parentId)\<close> if its
  parent id is non-empty and then \<open>frameNavigated(frame, initial=true)\<close>, a frame
  before its children. When the page domain is enabled and the browser returns the
  tree \<open>t\<close>, \<open>initFrameTree\<close> walks \<open>t\<close> in this way if the session is the page's
  main-frame session (and then subscribes to the renderer events), and makes no call
  on the frame manager otherwise.
\<close>

theorem frame_tree_walk:
  "handleFrameTree env t w = run_calls env (walk t) w
   \<and> ((\<forall>err. cdp_reply env w (session fs) PageEnable \<noteq> ReplyError err) \<longrightarrow>
        cdp_reply env (w\<lparr>sent := sent w @ [Execute (session fs) PageEnable]\<rparr>) (session fs)
          PageGetFrameTree = ReplyFrameTree (Some t) \<longrightarrow>
        initFrameTree env fs w =
          (if isMainFrame fs w
           then (case run_calls env (walk t)
                        (w\<lparr>sent := sent w @ [Execute (session fs) PageEnable,
                                               Execute (session fs) PageGetFrameTree]\<rparr>) of
                   (Inl e, w3) \<Rightarrow> (Inl e, w3)
                 | (Inr u, w3) \<Rightarrow> (Inr (), initRendererEvents fs w3))
           else (Inr (), w\<lparr>sent := sent w @ [Execute (session fs) PageEnable,
                                               Execute (session fs) PageGetFrameTree]\<rparr>)))"
proof (intro conjI impI)
  show "handleFrameTree env t w = run_calls env (walk t) w"
    by (rule handleFrameTree_run_calls)
next
  assume ok: "\<forall>err. cdp_reply env w (session fs) PageEnable \<noteq> ReplyError err"
    and tree: "cdp_reply env (w\<lparr>sent := sent w @ [Execute (session fs) PageEnable]\<rparr>)
        (session fs) PageGetFrameTree = ReplyFrameTree (Some t)"
  have 1: "Do env (session fs) PageEnable w
      = (None, w\<lparr>sent := sent w @ [Execute (session fs) PageEnable]\<rparr>)"
    using ok by (simp add: Do_def execute_def split: Reply.splits)
  have 2: "execute env (session fs) PageGetFrameTree
        (w\<lparr>sent := sent w @ [Execute (session fs) PageEnable]\<rparr>)
      = (ReplyFrameTree (Some t),
         w\<lparr>sent := sent w @ [Execute (session fs) PageEnable,
                               Execute (session fs) PageGetFrameTree]\<rparr>)"
    using tree by (simp add: execute_def)
  show "initFrameTree env fs w =
          (if isMainFrame fs w
           then (case run_calls env (walk t)
                        (w\<lparr>sent := sent w @ [Execute (session fs) PageEnable,
                                               Execute (session fs) PageGetFrameTree]\<rparr>) of
                   (Inl e, w3) \<Rightarrow> (Inl e, w3)
                 | (Inr u, w3) \<Rightarrow> (Inr (), initRendererEvents fs w3))
           else (Inr (), w\<lparr>sent := sent w @ [Execute (session fs) PageEnable,
                                               Execute (session fs) PageGetFrameTree]\<rparr>))"
    by (simp add: initFrameTree_def 1 2 handleFrameTree_run_calls isMainFrame_def)
qed

theorem frame_tree_walk_witness:
  "isMainFrame example_session unseeded_world
   \<and> cdp_reply example_env (unseeded_world\<lparr>sent := [Execute ''S0'' PageEnable]\<rparr>) ''S0''
        PageGetFrameTree = ReplyFrameTree (Some example_tree)
   \<and> walk example_tree =
        [FrameNavigatedCall (example_frame ''F0'' [] ''https://k6.io/'') True,
         FrameAttachedCall ''F1'' ''F0'',
         FrameNavigatedCall (example_frame ''F1'' ''F0'' ''https://k6.io/frame'') True,
         FrameAttachedCall ''F2'' ''F1'',
         FrameNavigatedCall (example_frame ''F2'' ''F1'' ''about:blank'') True,
         FrameAttachedCall ''F3'' ''F0'',
         FrameNavigatedCall (example_frame ''F3'' ''F0'' ''https://k6.io/ad'') True]
   \<and> fst (initFrameTree example_env example_session unseeded_world) = Inr ()
   \<and> map fst (frames (manager (snd (initFrameTree example_env example_session unseeded_world))))
       = [''F0'', ''F1'', ''F2'', ''F3'']"
proof -
  have main: "isMainFrame example_session unseeded_world"
    by (simp add: isMainFrame_def example_session_def unseeded_world_def example_world_def
          example_page_def)
  have s: "session example_session = ''S0''" "sent unseeded_world = []"
    by (simp_all add: example_session_def unseeded_world_def example_world_def)
  have ok: "\<forall>err. cdp_reply example_env unseeded_world (session example_session) PageEnable
      \<noteq> ReplyError err"
    by (simp add: example_env_def)
  have tree: "cdp_reply example_env w ''S0'' PageGetFrameTree = ReplyFrameTree (Some example_tree)"
    for w
    by (simp add: example_env_def)
  have calls: "walk example_tree =
        [FrameNavigatedCall (example_frame ''F0'' [] ''https://k6.io/'') True,
         FrameAttachedCall ''F1'' ''F0'',
         FrameNavigatedCall (example_frame ''F1'' ''F0'' ''https://k6.io/frame'') True,
         FrameAttachedCall ''F2'' ''F1'',
         FrameNavigatedCall (example_frame ''F2'' ''F1'' ''about:blank'') True,
         FrameAttachedCall ''F3'' ''F0'',
         FrameNavigatedCall (example_frame ''F3'' ''F0'' ''https://k6.io/ad'') True]"
    by (simp add: walk_eval)
  from frame_tree_walk [of example_env example_tree unseeded_world example_session] ok tree main
  have "initFrameTree example_env example_session unseeded_world =
          (case run_calls example_env (walk example_tree)
                  (unseeded_world\<lparr>sent := [Execute ''S0'' PageEnable,
                                             Execute ''S0'' PageGetFrameTree]\<rparr>) of
             (Inl e, w3) \<Rightarrow> (Inl e, w3)
           | (Inr u, w3) \<Rightarrow> (Inr (), initRendererEvents example_session w3))"
    by (simp add: s)
  then have "fst (initFrameTree example_env example_session unseeded_world) = Inr ()"
    "map fst (frames (manager (snd (initFrameTree example_env example_session unseeded_world))))
       = [''F0'', ''F1'', ''F2'', ''F3'']"
    by (simp_all add: walk_eval world_eval initRendererEvents_def session_on_def)
  with main tree calls show ?thesis by simp
qed

subsection \<open>Page lifecycle events\<close>

lemma getFrameByID_frameLifecycleEvent [simp]:
  "getFrameByID (frameLifecycleEvent fid e m) x = getFrameByID m x"
  by (simp add: frameLifecycleEvent_def getFrameByID_def split: option.splits)

lemma frame_URL_frameLifecycleEvent [simp]:
  "frame_URL (heap (frameLifecycleEvent fid e m) p) = frame_URL (heap m p)"
  by (simp add: frameLifecycleEvent_def split: option.splits)

lemma push_duration_eq:
  "push_duration metric p (lifecycle_Timestamp ev) fs w =
     (if ctx_done w then w else w\<lparr>samples := samples w @ [[duration_sample metric p ev fs w]]\<rparr>)"
  by (simp add: push_duration_def PushIfNotDone_def duration_sample_def Let_def)

lemma duration_sample_manager:
  "duration_sample metric p ev fs (w\<lparr>manager := frameLifecycleEvent fid e (manager w)\<rparr>)
     = duration_sample metric p ev fs w"
  by (simp add: duration_sample_def frame_at_def)

lemma duration_sample_initTime:
  "duration_sample metric p ev (fs\<lparr>initTime := t\<rparr>) w
     = (duration_sample metric p ev fs w)
         \<lparr>sample_Value := k6stats_D (time_Sub (lifecycle_Timestamp ev) t)\<rparr>"
  by (simp add: duration_sample_def)

lemma eventToMetric_eq:
  "name \<noteq> ''load'' \<Longrightarrow> name \<noteq> ''DOMContentLoaded'' \<Longrightarrow>
     eventToMetric name = lifecycle_metric name"
  by (simp add: eventToMetric_def lifecycle_metric_def)

lemmas lifecycle_eval = onPageLifecycle_def Let_def push_duration_def PushIfNotDone_def
  frameLifecycleEvent_def getFrameByID_def frame_at_def eventToMetric_def lifecycle_event_def
  started_session_def example_session_def example_world_def example_manager_def
  example_heap_def new_Frame_def k6stats_D_def time_Sub_def

text \<open>
  The claim C3 as it stands fails: the sample goes through \<^verbatim>\<open>PushIfNotDone\<close>, so a
  \<^verbatim>\<open>load\<close> event for a known frame emits nothing when the context of the session is
  done; a paint event emits nothing when its frame id is not known; and the value is
  what \<^verbatim>\<open>Time.Sub\<close> makes of the two timestamps, which is the largest duration and not
  their difference when they are more than \<^verbatim>\<open>2^63\<close> nanoseconds (some 292 years)
  apart, as the zero timestamp of a session that has seen no \<^verbatim>\<open>init\<close> event can be
  from the timestamp of an event.
\<close>

theorem page_lifecycle_counterexample:
  "getFrameByID (manager example_world) ''F0'' = Some 1
   \<and> samples (snd (onPageLifecycle (lifecycle_event ''load'' ''F0'' 3500000000) started_session
        (example_world\<lparr>ctx_done := True\<rparr>))) = []
   \<and> getFrameByID (manager example_world) ''F9'' = None
   \<and> samples (snd (onPageLifecycle (lifecycle_event ''firstPaint'' ''F9'' 3500000000)
        started_session example_world)) = []
   \<and> initTime example_session = 0
   \<and> map (map sample_Value)
        (samples (snd (onPageLifecycle (lifecycle_event ''load'' ''F0'' 10000000000000000000)
           example_session example_world))) = [[9223372036854775807 / 1000000]]
   \<and> k6stats_D (10000000000000000000 - initTime example_session) = 10000000000000"
  by (simp add: lifecycle_eval)

text \<open>
  Claim C3, amended. \<open>onPageLifecycle\<close> sets the init timestamp of the session to the
  timestamp of the event when the event is named \<^verbatim>\<open>init\<close> or \<^verbatim>\<open>commit\<close>, and leaves the
  session alone otherwise. A \<^verbatim>\<open>load\<close> (respectively \<^verbatim>\<open>DOMContentLoaded\<close>) event records
  the lifecycle event for the frame through the frame manager. An event named
  \<^verbatim>\<open>load\<close>, \<^verbatim>\<open>DOMContentLoaded\<close>, \<^verbatim>\<open>firstPaint\<close>, \<^verbatim>\<open>firstContentfulPaint\<close> or
  \<^verbatim>\<open>firstMeaningfulPaint\<close> emits exactly one sample of its metric when the frame id
  resolves to a known frame and the context of the session is not done: the value is
  the duration from the stored init timestamp to the timestamp of the event (their
  difference, as long as it fits a \<^verbatim>\<open>time.Duration\<close>), the tags are the tags of the
  scope and, when the \<^verbatim>\<open>url\<close> system tag is enabled, the URL of the frame. In every
  other case no sample is emitted.
\<close>

theorem page_lifecycle:
  "(\<exists>fs' w'. onPageLifecycle ev fs w = (fs', w')
     \<and> fs' = (if lifecycle_Name ev = ''init'' \<or> lifecycle_Name ev = ''commit''
              then fs\<lparr>initTime := lifecycle_Timestamp ev\<rparr> else fs)
     \<and> manager w' =
         (if lifecycle_Name ev = ''load''
          then frameLifecycleEvent (lifecycle_FrameID ev) LifecycleEventLoad (manager w)
          else if lifecycle_Name ev = ''DOMContentLoaded''
          then frameLifecycleEvent (lifecycle_FrameID ev) LifecycleEventDOMContentLoad (manager w)
          else manager w)
     \<and> (\<forall>metric p.
           lifecycle_metric (lifecycle_Name ev) = Some metric \<longrightarrow>
           getFrameByID (manager w) (lifecycle_FrameID ev) = Some p \<longrightarrow>
           \<not> ctx_done w \<longrightarrow>
           samples w' = samples w @ [[duration_sample metric p ev fs w]])
     \<and> (lifecycle_metric (lifecycle_Name ev) = None
          \<or> getFrameByID (manager w) (lifecycle_FrameID ev) = None
          \<or> ctx_done w \<longrightarrow> samples w' = samples w))
   \<and> (- (2 ^ 63) \<le> lifecycle_Timestamp ev - initTime fs
        \<and> lifecycle_Timestamp ev - initTime fs < 2 ^ 63 \<longrightarrow>
        time_Sub (lifecycle_Timestamp ev) (initTime fs) = lifecycle_Timestamp ev - initTime fs)"
proof (intro conjI impI)
  show "time_Sub (lifecycle_Timestamp ev) (initTime fs) = lifecycle_Timestamp ev - initTime fs"
    if "- (2 ^ 63) \<le> lifecycle_Timestamp ev - initTime fs
        \<and> lifecycle_Timestamp ev - initTime fs < 2 ^ 63"
    using that by (simp add: time_Sub_def)
next
  consider (load) "lifecycle_Name ev = ''load''"
    | (dom) "lifecycle_Name ev = ''DOMContentLoaded''"
    | (other) "lifecycle_Name ev \<noteq> ''load''" "lifecycle_Name ev \<noteq> ''DOMContentLoaded''"
    by blast
  then show "\<exists>fs' w'. onPageLifecycle ev fs w = (fs', w')
     \<and> fs' = (if lifecycle_Name ev = ''init'' \<or> lifecycle_Name ev = ''commit''
              then fs\<lparr>initTime := lifecycle_Timestamp ev\<rparr> else fs)
     \<and> manager w' =
         (if lifecycle_Name ev = ''load''
          then frameLifecycleEvent (lifecycle_FrameID ev) LifecycleEventLoad (manager w)
          else if lifecycle_Name ev = ''DOMContentLoaded''
          then frameLifecycleEvent (lifecycle_FrameID ev) LifecycleEventDOMContentLoad (manager w)
          else manager w)
     \<and> (\<forall>metric p.
           lifecycle_metric (lifecycle_Name ev) = Some metric \<longrightarrow>
           getFrameByID (manager w) (lifecycle_FrameID ev) = Some p \<longrightarrow>
           \<not> ctx_done w \<longrightarrow>
           samples w' = samples w @ [[duration_sample metric p ev fs w]])
     \<and> (lifecycle_metric (lifecycle_Name ev) = None
          \<or> getFrameByID (manager w) (lifecycle_FrameID ev) = None
          \<or> ctx_done w \<longrightarrow> samples w' = samples w)"
  proof cases
    case load
    then show ?thesis
      by (cases "getFrameByID (manager w) (lifecycle_FrameID ev)")
         (simp_all add: onPageLifecycle_def Let_def push_duration_eq duration_sample_manager
            lifecycle_metric_def)
  next
    case dom
    then show ?thesis
      by (cases "getFrameByID (manager w) (lifecycle_FrameID ev)")
         (simp_all add: onPageLifecycle_def Let_def push_duration_eq duration_sample_manager
            lifecycle_metric_def)
  next
    case other
    show ?thesis
    proof (cases "getFrameByID (manager w) (lifecycle_FrameID ev)")
      case None
      with other show ?thesis
        by (simp add: onPageLifecycle_def Let_def)
    next
      case (Some p)
      show ?thesis
      proof (cases "lifecycle_metric (lifecycle_Name ev)")
        case None
        with other Some show ?thesis
          by (simp add: onPageLifecycle_def Let_def eventToMetric_eq)
      next
        case (Some metric)
        then have "lifecycle_Name ev \<noteq> ''init''" "lifecycle_Name ev \<noteq> ''commit''"
          by (auto simp: lifecycle_metric_def split: if_splits)
        with other Some \<open>getFrameByID (manager w) (lifecycle_FrameID ev) = Some p\<close>
        show ?thesis
          by (simp add: onPageLifecycle_def Let_def eventToMetric_eq push_duration_eq)
      qed
    qed
  qed
qed

theorem page_lifecycle_witness:
  "lifecycle_metric ''load'' = Some BrowserLoaded
   \<and> getFrameByID (manager example_world) ''F0'' = Some 1
   \<and> \<not> ctx_done example_world
   \<and> samples (snd (onPageLifecycle (lifecycle_event ''load'' ''F0'' 3500000000) started_session
        example_world))
       = [[\<lparr>sample_Metric = BrowserLoaded,
             sample_Tags = [(''scenario'', ''default''), (''url'', ''https://k6.io/'')],
             sample_Value = 2500, sample_Time = 0\<rparr>]]
   \<and> lifecycleEvents (frame_at (snd (onPageLifecycle (lifecycle_event ''load'' ''F0'' 3500000000)
        started_session example_world)) 1) = [LifecycleEventLoad]
   \<and> initTime (fst (onPageLifecycle (lifecycle_event ''init'' ''F0'' 1000000000) example_session
        example_world)) = 1000000000"
proof -
  let ?load = "lifecycle_event ''load'' ''F0'' 3500000000"
  have m: "lifecycle_metric (lifecycle_Name ?load) = Some BrowserLoaded"
    "lifecycle_metric ''load'' = Some BrowserLoaded"
    by (simp_all add: lifecycle_metric_def lifecycle_event_def)
  have f: "getFrameByID (manager example_world) (lifecycle_FrameID ?load) = Some 1"
    "getFrameByID (manager example_world) ''F0'' = Some 1"
    by (simp_all add: getFrameByID_def lifecycle_event_def example_world_def example_manager_def)
  have c: "\<not> ctx_done example_world"
    by (simp add: example_world_def)
  from page_lifecycle [of ?load started_session example_world] m f c
  have "samples (snd (onPageLifecycle ?load started_session example_world))
      = samples example_world @ [[duration_sample BrowserLoaded 1 ?load started_session example_world]]"
    by auto
  then have s: "samples (snd (onPageLifecycle ?load started_session example_world))
       = [[\<lparr>sample_Metric = BrowserLoaded,
             sample_Tags = [(''scenario'', ''default''), (''url'', ''https://k6.io/'')],
             sample_Value = 2500, sample_Time = 0\<rparr>]]"
    by (simp add: duration_sample_def lifecycle_eval)
  have l: "lifecycleEvents (frame_at (snd (onPageLifecycle ?load started_session example_world)) 1)
      = [LifecycleEventLoad]"
    by (simp add: lifecycle_eval)
  have i: "initTime (fst (onPageLifecycle (lifecycle_event ''init'' ''F0'' 1000000000)
        example_session example_world)) = 1000000000"
    by (simp add: lifecycle_eval)
  from m f c s l i show ?thesis by simp
qed

subsection \<open>Console and log events\<close>






end
